theory Spec2Isabelle
  imports Complex_Main
begin

section \<open>Errors\<close>

text \<open>
  The conditions under which a statement of the scripts, a trigger function or a query
  ends with an error instead of a result.
\<close>

datatype sql_error =
    Syntax_error
  | Undefined_file
  | Undefined_object
  | Duplicate_object
  | Dependent_objects_still_exist
  | Division_by_zero
  | Raise_exception
  | Coordinate_out_of_range

section \<open>PostGIS points\<close>

text \<open>
  The venue migration builds its derived column with three PostGIS functions:
  \<^verbatim>\<open>ST_SetSRID(ST_MakePoint(lon::numeric, lat::numeric), 4326)::geography\<close>.
  PostGIS itself is not part of the repository; each function is modelled by what it
  does to the arguments the migration passes. \<open>ST_MakePoint x y\<close> is the point with
  abscissa \<open>x\<close> and ordinate \<open>y\<close> and unknown reference system (0), and
  \<open>ST_SetSRID\<close> stamps the reference system. Coordinates are
  \<open>double precision\<close> columns; the model computes on reals, and the cast to
  \<open>numeric\<close> is the identity.

  The cast to \<open>geography\<close> reads the abscissa as longitude and the ordinate as
  latitude. A point inside longitude [-180, 180] and latitude [-90, 90] is kept as it
  is. What happens to a point outside depends on the PostGIS release: current
  releases coerce the coordinates into range and raise a notice, old ones raise an
  error. That part is a parameter of the cast, \<open>force_geodetic\<close>, which either
  gives the coerced pair or fails; every definition that casts takes it.
\<close>

record geometry =
  geom_x :: real
  geom_y :: real
  geom_srid :: nat

definition ST_MakePoint :: "real \<Rightarrow> real \<Rightarrow> geometry" where
  "ST_MakePoint x y = \<lparr>geom_x = x, geom_y = y, geom_srid = 0\<rparr>"

definition ST_SetSRID :: "geometry \<Rightarrow> nat \<Rightarrow> geometry" where
  "ST_SetSRID g s = g\<lparr>geom_srid := s\<rparr>"

record geography =
  geog_lon :: real
  geog_lat :: real
  geog_srid :: nat

type_synonym out_of_range_policy = "real \<Rightarrow> real \<Rightarrow> sql_error + real \<times> real"

definition in_geographic_range :: "real \<Rightarrow> real \<Rightarrow> bool" where
  "in_geographic_range x y = (- 180 \<le> x \<and> x \<le> 180 \<and> - 90 \<le> y \<and> y \<le> 90)"

definition to_geography :: "out_of_range_policy \<Rightarrow> geometry \<Rightarrow> sql_error + geography" where
  "to_geography force_geodetic g =
     (if in_geographic_range (geom_x g) (geom_y g)
      then Inr \<lparr>geog_lon = geom_x g, geog_lat = geom_y g, geog_srid = geom_srid g\<rparr>
      else (case force_geodetic (geom_x g) (geom_y g) of
              Inl err \<Rightarrow> Inl err
            | Inr (x, y) \<Rightarrow> Inr \<lparr>geog_lon = x, geog_lat = y, geog_srid = geom_srid g\<rparr>))"

text \<open>
  Two policies for closed examples. The first is the coercion of current PostGIS
  releases, written after the normalisation of degrees in its geodetic library:
  values beyond a full turn are reduced by the floating-point remainder, then
  wrapped (longitude) or reflected at the pole (latitude), so that latitude 91
  becomes 89. The second is the refusal of old releases.
\<close>

definition round_half_even :: "real \<Rightarrow> int" where
  "round_half_even q =
     (let n = \<lfloor>q\<rfloor>
      in if q - of_int n < 1 / 2 then n
         else if 1 / 2 < q - of_int n then n + 1
         else if even n then n else n + 1)"

definition remainder :: "real \<Rightarrow> real \<Rightarrow> real" where
  "remainder x y = x - of_int (round_half_even (x / y)) * y"

definition longitude_degrees_normalize :: "real \<Rightarrow> real" where
  "longitude_degrees_normalize lon0 =
     (let lon1 = (if 360 < lon0 then remainder lon0 360 else lon0);
          lon2 = (if lon1 < - 360 then remainder lon1 (- 360) else lon1);
          lon3 = (if 180 < lon2 then - 360 + lon2 else lon2);
          lon4 = (if lon3 < - 180 then 360 + lon3 else lon3)
      in if lon4 = - 180 then 180 else if lon4 = - 360 then 180 else lon4)"

definition latitude_degrees_normalize :: "real \<Rightarrow> real" where
  "latitude_degrees_normalize lat0 =
     (let lat1 = (if 360 < lat0 then remainder lat0 360 else lat0);
          lat2 = (if lat1 < - 360 then remainder lat1 (- 360) else lat1);
          lat3 = (if 180 < lat2 then 180 - lat2 else lat2);
          lat4 = (if lat3 < - 180 then - 180 - lat3 else lat3);
          lat5 = (if 90 < lat4 then 180 - lat4 else lat4)
      in if lat5 < - 90 then - 180 - lat5 else lat5)"

definition coerce_into_range :: out_of_range_policy where
  "coerce_into_range x y =
     Inr (longitude_degrees_normalize x, latitude_degrees_normalize y)"

definition reject_out_of_range :: out_of_range_policy where
  "reject_out_of_range x y = Inl Coordinate_out_of_range"

section \<open>Text search vectors\<close>

text \<open>
  A \<open>tsvector\<close> is modelled as the list of its lexeme occurrences, each with its
  position and its weight label. The text search configuration \<^verbatim>\<open>'english'\<close>
  (parser, stop words, stemmer) belongs to PostgreSQL, so it is a parameter of every
  definition that calls \<open>to_tsvector\<close>: a function from a document to its
  normalised lexemes with positions. \<open>to_tsvector\<close> labels every occurrence with
  the default weight D, \<open>setweight\<close> relabels all of them, and \<open>||\<close> appends the
  second vector with its positions shifted past the first one's last position.
\<close>

datatype weight = WeightA | WeightB | WeightC | WeightD

type_synonym tsvector = "(string \<times> nat \<times> weight) list"

type_synonym ts_config = "string \<Rightarrow> (string \<times> nat) list"

definition weight_of :: "string \<times> nat \<times> weight \<Rightarrow> weight" where
  "weight_of occ = snd (snd occ)"

definition to_tsvector :: "ts_config \<Rightarrow> string \<Rightarrow> tsvector" where
  "to_tsvector config doc = map (\<lambda>(lexeme, pos). (lexeme, pos, WeightD)) (config doc)"

definition setweight :: "tsvector \<Rightarrow> weight \<Rightarrow> tsvector" where
  "setweight vec w = map (\<lambda>(lexeme, pos, old). (lexeme, pos, w)) vec"

definition max_pos :: "tsvector \<Rightarrow> nat" where
  "max_pos vec = foldr (\<lambda>(lexeme, pos, w) m. max pos m) vec 0"

definition tsvector_concat :: "tsvector \<Rightarrow> tsvector \<Rightarrow> tsvector" where
  "tsvector_concat a b = a @ map (\<lambda>(lexeme, pos, w). (lexeme, pos + max_pos a, w)) b"

definition COALESCE :: "'a option \<Rightarrow> 'a \<Rightarrow> 'a" where
  "COALESCE v d = (case v of None \<Rightarrow> d | Some a \<Rightarrow> a)"

text \<open>
  The weight a label carries in relevance scoring: PostgreSQL's \<open>ts_rank\<close> uses
  \<open>{0.1, 0.2, 0.4, 1.0}\<close> for D, C, B, A unless told otherwise. The migration's own
  comment says the same of the two labels it uses: "Weight A = higher importance,
  Weight B = lower importance".
\<close>

fun ts_rank_weight :: "weight \<Rightarrow> real" where
  "ts_rank_weight WeightD = 0.1"
| "ts_rank_weight WeightC = 0.2"
| "ts_rank_weight WeightB = 0.4"
| "ts_rank_weight WeightA = 1.0"

text \<open>
  A concrete configuration for closed examples: the whole document is one lexeme at
  position 1, and the empty document has none.
\<close>

definition whole_text_config :: ts_config where
  "whole_text_config doc = (if doc = [] then [] else [(doc, 1)])"

section \<open>Rows of \<open>wc_venues\<close> and \<open>wc_events\<close>\<close>

text \<open>
  Only the columns the migrations read or write are named; the remaining columns of a
  row are the record's extension part, so a statement about \<open>'a venue_scheme\<close>
  covers rows with any further columns.
\<close>

record venue =
  v_id :: string
  v_name :: "string option"
  v_lat :: "real option"
  v_lon :: "real option"
  v_location :: "geography option"
  v_search_vector :: "tsvector option"

record event =
  e_id :: string
  e_title :: "string option"
  e_description :: "string option"
  e_start_at :: "int option"
  e_venue_id :: "string option"
  e_search_vector :: "tsvector option"

section \<open>Trigger functions\<close>

text \<open>
  \<^verbatim>\<open>update_venue_location()\<close> of the PostGIS migration. The body is one
  \<open>IF\<close>; it has no range test and no \<open>RAISE\<close> of its own. It ends with an error
  exactly when the cast inside it does, and the write that fired it is then rejected.
\<close>

definition update_venue_location ::
  "out_of_range_policy \<Rightarrow> 'a venue_scheme \<Rightarrow> sql_error + 'a venue_scheme" where
  "update_venue_location force_geodetic NEW =
     (if v_lat NEW \<noteq> None \<and> v_lon NEW \<noteq> None
      then (case to_geography force_geodetic
                   (ST_SetSRID (ST_MakePoint (the (v_lon NEW)) (the (v_lat NEW))) 4326) of
              Inl err \<Rightarrow> Inl err
            | Inr p \<Rightarrow> Inr (NEW\<lparr>v_location := Some p\<rparr>))
      else Inr (NEW\<lparr>v_location := None\<rparr>))"

text \<open>
  \<^verbatim>\<open>update_event_search_vector()\<close> and \<^verbatim>\<open>update_venue_search_vector()\<close> of
  the text search migration.
\<close>

definition update_event_search_vector :: "ts_config \<Rightarrow> 'a event_scheme \<Rightarrow> 'a event_scheme" where
  "update_event_search_vector english NEW =
     NEW\<lparr>e_search_vector := Some (tsvector_concat
        (setweight (to_tsvector english (COALESCE (e_title NEW) '''')) WeightA)
        (setweight (to_tsvector english (COALESCE (e_description NEW) '''')) WeightB))\<rparr>"

definition update_venue_search_vector :: "ts_config \<Rightarrow> 'a venue_scheme \<Rightarrow> 'a venue_scheme" where
  "update_venue_search_vector english NEW =
     NEW\<lparr>v_search_vector := Some (to_tsvector english (COALESCE (v_name NEW) ''''))\<rparr>"

section \<open>Writes to a venue row\<close>

text \<open>
  With both index migrations applied, \<open>wc_venues\<close> has two triggers, declared
  \<^verbatim>\<open>BEFORE INSERT OR UPDATE OF lat, lon ON public.wc_venues FOR EACH ROW\<close> and
  \<^verbatim>\<open>BEFORE INSERT OR UPDATE OF name ON public.wc_venues FOR EACH ROW\<close>.
  A row-level \<open>BEFORE INSERT\<close> trigger runs on every inserted row; an
  \<open>UPDATE OF\<close> trigger runs only when one of its columns is a target of the
  command's \<open>SET\<close> list. Triggers of one table run in the order of their names, so
  \<open>trigger_update_venue_location\<close> runs before
  \<open>trigger_update_venue_search_vector\<close>. A write whose trigger function ends with
  an error is rejected: an insert leaves no row, an update leaves the row as it was.

  The \<open>SET\<close> list of an \<open>UPDATE\<close> is a record with one entry per column:
  \<open>None\<close> when the column is not a target, \<open>Some v\<close> when it is assigned \<open>v\<close>
  (which may itself be \<open>NULL\<close>, that is \<open>None\<close>).
\<close>

record venue_set_list =
  set_name :: "string option option"
  set_lat :: "real option option"
  set_lon :: "real option option"
  set_location :: "geography option option"
  set_search_vector :: "tsvector option option"

definition is_target :: "'a option \<Rightarrow> bool" where
  "is_target entry = (case entry of None \<Rightarrow> False | Some v \<Rightarrow> True)"

definition assign :: "'a option \<Rightarrow> 'a \<Rightarrow> 'a" where
  "assign entry old = (case entry of None \<Rightarrow> old | Some v \<Rightarrow> v)"

definition apply_set_list :: "venue_set_list \<Rightarrow> 'a venue_scheme \<Rightarrow> 'a venue_scheme" where
  "apply_set_list st OLD =
     OLD\<lparr>v_name := assign (set_name st) (v_name OLD),
         v_lat := assign (set_lat st) (v_lat OLD),
         v_lon := assign (set_lon st) (v_lon OLD),
         v_location := assign (set_location st) (v_location OLD),
         v_search_vector := assign (set_search_vector st) (v_search_vector OLD)\<rparr>"

definition insert_venue ::
  "out_of_range_policy \<Rightarrow> ts_config \<Rightarrow> 'a venue_scheme \<Rightarrow> sql_error + 'a venue_scheme" where
  "insert_venue force_geodetic english NEW =
     (case update_venue_location force_geodetic NEW of
        Inl err \<Rightarrow> Inl err
      | Inr NEW1 \<Rightarrow> Inr (update_venue_search_vector english NEW1))"

definition update_venue ::
  "out_of_range_policy \<Rightarrow> ts_config \<Rightarrow> venue_set_list \<Rightarrow> 'a venue_scheme \<Rightarrow>
   sql_error + 'a venue_scheme" where
  "update_venue force_geodetic english st OLD =
     (let NEW = apply_set_list st OLD
      in case (if is_target (set_lat st) \<or> is_target (set_lon st)
               then update_venue_location force_geodetic NEW else Inr NEW) of
           Inl err \<Rightarrow> Inl err
         | Inr NEW1 \<Rightarrow>
             Inr (if is_target (set_name st)
                  then update_venue_search_vector english NEW1 else NEW1))"

text \<open>
  The row after an insert followed by a sequence of updates: no row when the insert
  is rejected, and a rejected update changes nothing.
\<close>

definition update_or_keep ::
  "out_of_range_policy \<Rightarrow> ts_config \<Rightarrow> 'a venue_scheme \<Rightarrow> venue_set_list \<Rightarrow> 'a venue_scheme" where
  "update_or_keep force_geodetic english row st =
     (case update_venue force_geodetic english st row of
        Inl err \<Rightarrow> row
      | Inr row' \<Rightarrow> row')"

definition venue_after_writes ::
  "out_of_range_policy \<Rightarrow> ts_config \<Rightarrow> 'a venue_scheme \<Rightarrow> venue_set_list list \<Rightarrow>
   sql_error + 'a venue_scheme" where
  "venue_after_writes force_geodetic english NEW sts =
     (case insert_venue force_geodetic english NEW of
        Inl err \<Rightarrow> Inl err
      | Inr row \<Rightarrow> Inr (foldl (update_or_keep force_geodetic english) row sts))"

text \<open>
  The invariant of the derived column: \<open>location\<close> is present exactly when both
  coordinates are, and then it is the value of the cast of the point built from
  (longitude, latitude) with SRID 4326.
\<close>

definition location_in_sync :: "out_of_range_policy \<Rightarrow> 'a venue_scheme \<Rightarrow> bool" where
  "location_in_sync force_geodetic v =
     (if v_lat v \<noteq> None \<and> v_lon v \<noteq> None
      then (case v_location v of
              None \<Rightarrow> False
            | Some p \<Rightarrow>
                to_geography force_geodetic
                  \<lparr>geom_x = the (v_lon v), geom_y = the (v_lat v), geom_srid = 4326\<rparr> = Inr p)
      else v_location v = None)"

text \<open>
  An \<open>UPDATE\<close> that targets \<open>location\<close> and neither \<open>lat\<close> nor \<open>lon\<close>
  authors the derived column independently of its sources; the location trigger does
  not see such a write. The data model rules it out: a derived representation is
  never independently authored.
\<close>

definition assigns_location_alone :: "venue_set_list \<Rightarrow> bool" where
  "assigns_location_alone st =
     (is_target (set_location st) \<and> \<not> is_target (set_lat st) \<and> \<not> is_target (set_lon st))"

definition keeps_location_derived :: "venue_set_list \<Rightarrow> bool" where
  "keeps_location_derived st = (\<not> assigns_location_alone st)"

text \<open>Rows and \<open>SET\<close> lists for closed examples.\<close>

definition venue_A :: venue where
  "venue_A = \<lparr>v_id = ''A'', v_name = Some ''Lucas Oil Stadium'',
     v_lat = Some 39.7684, v_lon = Some (-86.1581),
     v_location = None, v_search_vector = None\<rparr>"

definition venue_beyond_pole :: venue where
  "venue_beyond_pole = \<lparr>v_id = ''P'', v_name = None, v_lat = Some 91, v_lon = Some 0,
     v_location = None, v_search_vector = None\<rparr>"

definition set_nothing :: venue_set_list where
  "set_nothing = \<lparr>set_name = None, set_lat = None, set_lon = None,
     set_location = None, set_search_vector = None\<rparr>"

definition set_lon_null :: venue_set_list where
  "set_lon_null = set_nothing\<lparr>set_lon := Some None\<rparr>"

definition set_lat_91 :: venue_set_list where
  "set_lat_91 = set_nothing\<lparr>set_lat := Some (Some 91)\<rparr>"

definition event_concert :: event where
  "event_concert = \<lparr>e_id = ''E'', e_title = Some ''Concert Night'',
     e_description = Some ''Lucas Oil Stadium'', e_start_at = Some 20250601,
     e_venue_id = Some ''A'', e_search_vector = None\<rparr>"

section \<open>Search query construction\<close>

text \<open>
  One row of the search query's join: the event \<open>e\<close>, its venue \<open>v\<close> (absent
  when the event has none: every \<open>v.\<close> column is then \<open>NULL\<close>) and the price
  aggregate \<open>ep\<close>.
\<close>

record search_row =
  row_e :: event
  row_v :: "venue option"
  ep_price_min :: "real option"
  ep_price_max :: "real option"

definition row_location :: "search_row \<Rightarrow> geography option" where
  "row_location row = (case row_v row of None \<Rightarrow> None | Some v \<Rightarrow> v_location v)"

definition row_venue_search_vector :: "search_row \<Rightarrow> tsvector option" where
  "row_venue_search_vector row = (case row_v row of None \<Rightarrow> None | Some v \<Rightarrow> v_search_vector v)"

text \<open>
  The conjuncts a \<open>WHERE\<close> clause is made of, with their parameters bound.
  \<open>ST_DWithin_location x y r\<close> stands for
  \<^verbatim>\<open>ST_DWithin(v.location, ST_SetSRID(ST_MakePoint(x, y), 4326)::geography, r)\<close>.
  A row is kept when every conjunct evaluates to \<open>TRUE\<close>; a comparison with
  \<open>NULL\<close> does not. The cast of the centre is part of the query: when it fails,
  the query ends with its error, whatever the row. PostGIS's \<open>ST_Distance\<close> on
  geographies and PostgreSQL's match of a vector against
  \<open>to_tsquery('english', $query)\<close> are parameters (\<open>ST_Distance\<close>,
  \<open>matches\<close>); \<open>ST_DWithin a b r\<close> is true when the distance from \<open>a\<close> to
  \<open>b\<close> is at most \<open>r\<close>.
\<close>

datatype condition =
    Start_at_ge int
  | Start_at_le int
  | Location_is_not_null
  | ST_DWithin_location real real real
  | Search_vector_matches string
  | Price_min_ge real
  | Price_max_le real

definition ST_DWithin ::
  "(geography \<Rightarrow> geography \<Rightarrow> real) \<Rightarrow> geography \<Rightarrow> geography \<Rightarrow> real \<Rightarrow> bool" where
  "ST_DWithin ST_Distance a b r = (ST_Distance a b \<le> r)"

fun holds ::
  "out_of_range_policy \<Rightarrow> (geography \<Rightarrow> geography \<Rightarrow> real) \<Rightarrow> (tsvector \<Rightarrow> string \<Rightarrow> bool) \<Rightarrow>
   search_row \<Rightarrow> condition \<Rightarrow> sql_error + bool" where
  "holds force_geodetic ST_Distance matches row (Start_at_ge d) =
     Inr (case e_start_at (row_e row) of None \<Rightarrow> False | Some t \<Rightarrow> d \<le> t)"
| "holds force_geodetic ST_Distance matches row (Start_at_le d) =
     Inr (case e_start_at (row_e row) of None \<Rightarrow> False | Some t \<Rightarrow> t \<le> d)"
| "holds force_geodetic ST_Distance matches row Location_is_not_null =
     Inr (row_location row \<noteq> None)"
| "holds force_geodetic ST_Distance matches row (ST_DWithin_location x y r) =
     (case to_geography force_geodetic (ST_SetSRID (ST_MakePoint x y) 4326) of
        Inl err \<Rightarrow> Inl err
      | Inr centre \<Rightarrow>
          Inr (case row_location row of
                 None \<Rightarrow> False
               | Some p \<Rightarrow> ST_DWithin ST_Distance p centre r))"
| "holds force_geodetic ST_Distance matches row (Search_vector_matches query) =
     Inr ((case e_search_vector (row_e row) of None \<Rightarrow> False | Some vec \<Rightarrow> matches vec query) \<or>
          (case row_venue_search_vector row of None \<Rightarrow> False | Some vec \<Rightarrow> matches vec query))"
| "holds force_geodetic ST_Distance matches row (Price_min_ge p) =
     Inr (case ep_price_min row of None \<Rightarrow> False | Some m \<Rightarrow> p \<le> m)"
| "holds force_geodetic ST_Distance matches row (Price_max_le p) =
     Inr (case ep_price_max row of None \<Rightarrow> False | Some m \<Rightarrow> m \<le> p)"

fun where_holds ::
  "out_of_range_policy \<Rightarrow> (geography \<Rightarrow> geography \<Rightarrow> real) \<Rightarrow> (tsvector \<Rightarrow> string \<Rightarrow> bool) \<Rightarrow>
   search_row \<Rightarrow> condition list \<Rightarrow> sql_error + bool" where
  "where_holds force_geodetic ST_Distance matches row [] = Inr True"
| "where_holds force_geodetic ST_Distance matches row (c # cs) =
     (case holds force_geodetic ST_Distance matches row c of
        Inl err \<Rightarrow> Inl err
      | Inr b \<Rightarrow>
          (case where_holds force_geodetic ST_Distance matches row cs of
             Inl err \<Rightarrow> Inl err
           | Inr bs \<Rightarrow> Inr (b \<and> bs)))"

text \<open>
  The geographic filter of \<open>POSTGIS_SETUP.md\<close> (the PostGIS version):
  \<^verbatim>\<open>if (geoLocation) { const radiusMeters = radiusMiles * 1609.34; sqlQuery += ... }\<close>.
  The statement's parameters are pushed as (lat, lon, radiusMeters) and the text
  reads \<open>ST_MakePoint($(paramIndex + 1), $(paramIndex))\<close>, so the point is
  \<open>ST_MakePoint(lon, lat)\<close> and the radius is \<open>radiusMeters\<close>.
\<close>

record geo_location =
  lat :: real
  lon :: real

definition geographic_filtering :: "geo_location option \<Rightarrow> real \<Rightarrow> condition list" where
  "geographic_filtering geoLocation radiusMiles =
     (case geoLocation of
        None \<Rightarrow> []
      | Some g \<Rightarrow>
          (let radiusMeters = radiusMiles * 1609.34
           in [Location_is_not_null, ST_DWithin_location (lon g) (lat g) radiusMeters]))"

text \<open>
  The sorting snippet of \<open>POSTGIS_SETUP.md\<close> (the PostGIS version). \<open>sortParam\<close> is the
  source's \<open>sort\<close>, the requested sort as a string, \<open>geoLocation\<close> and \<open>q\<close> may
  be absent; a JavaScript string is truthy when it is present and not empty.
  \<open>Order_by_ST_Distance_ASC x y\<close> stands for
  \<^verbatim>\<open>ORDER BY ST_Distance(v.location, ST_SetSRID(ST_MakePoint(x, y), 4326)::geography) ASC\<close>.
  Both arms of the last conditional are the same text in the source.
\<close>

datatype order_by =
    Order_by_start_at_ASC
  | Order_by_ST_Distance_ASC real real
  | Order_by_start_at_DESC

definition truthy :: "string option \<Rightarrow> bool" where
  "truthy q = (case q of None \<Rightarrow> False | Some s \<Rightarrow> s \<noteq> [])"

definition orderBy :: "string \<Rightarrow> geo_location option \<Rightarrow> string option \<Rightarrow> order_by" where
  "orderBy sortParam geoLocation q =
     (if sortParam = ''date'' then Order_by_start_at_ASC
      else if sortParam = ''distance'' \<and> geoLocation \<noteq> None
        then Order_by_ST_Distance_ASC (lon (the geoLocation)) (lat (the geoLocation))
      else (if truthy q then Order_by_start_at_DESC else Order_by_start_at_DESC))"

text \<open>
  Modelled from the spec: the function that assembles the whole \<open>WHERE\<close> clause
  (the backend's \<open>eventService.ts\<close>) is not among the repository's files; only the
  geographic snippet above and the recommended clause in the index migration's
  comment are. The clause is composed as the spec's section 4.4 and that comment give
  it: the date range on \<open>e.start_at\<close>, then the geographic filter, then the text
  match on either search vector, then the price range on the joined offer
  aggregate; a filter that is absent contributes nothing.
\<close>

record search_filters =
  date_min :: "int option"
  date_max :: "int option"
  geoLocation :: "geo_location option"
  radiusMiles :: real
  textQuery :: "string option"
  price_min :: "real option"
  price_max :: "real option"

definition where_clause :: "search_filters \<Rightarrow> condition list" where
  "where_clause f =
     (case date_min f of None \<Rightarrow> [] | Some d \<Rightarrow> [Start_at_ge d]) @
     (case date_max f of None \<Rightarrow> [] | Some d \<Rightarrow> [Start_at_le d]) @
     geographic_filtering (geoLocation f) (radiusMiles f) @
     (case textQuery f of None \<Rightarrow> [] | Some query \<Rightarrow> [Search_vector_matches query]) @
     (case price_min f of None \<Rightarrow> [] | Some p \<Rightarrow> [Price_min_ge p]) @
     (case price_max f of None \<Rightarrow> [] | Some p \<Rightarrow> [Price_max_le p])"

text \<open>The step of the fixed order a conjunct belongs to.\<close>

fun filter_step :: "condition \<Rightarrow> nat" where
  "filter_step (Start_at_ge d) = 1"
| "filter_step (Start_at_le d) = 1"
| "filter_step Location_is_not_null = 2"
| "filter_step (ST_DWithin_location x y r) = 2"
| "filter_step (Search_vector_matches query) = 3"
| "filter_step (Price_min_ge p) = 4"
| "filter_step (Price_max_le p) = 4"

text \<open>
  Stand-ins for the two parameters in closed examples: a distance that adds the
  differences of the coordinates, and a match that looks the query up among the
  vector's lexemes. A joined row and a request for the examples: the concert at
  venue A as the insert stored it, and a search around (39.77, -86.15).
\<close>

definition coordinate_difference :: "geography \<Rightarrow> geography \<Rightarrow> real" where
  "coordinate_difference a b = \<bar>geog_lon a - geog_lon b\<bar> + \<bar>geog_lat a - geog_lat b\<bar>"

definition has_lexeme :: "tsvector \<Rightarrow> string \<Rightarrow> bool" where
  "has_lexeme vec query = (query \<in> fst ` set vec)"

definition concert_at_A :: search_row where
  "concert_at_A =
     \<lparr>row_e = event_concert,
      row_v = Some (venue_A\<lparr>v_location :=
                Some \<lparr>geog_lon = -86.1581, geog_lat = 39.7684, geog_srid = 4326\<rparr>\<rparr>),
      ep_price_min = None, ep_price_max = None\<rparr>"

definition near_indianapolis :: geo_location where
  "near_indianapolis = \<lparr>lat = 39.77, lon = -86.15\<rparr>"

section \<open>Database state and migration statements\<close>

text \<open>
  The part of the database the two index migrations touch: the extensions the server
  offers and those installed, the columns of the tables, indexes, PL/pgSQL functions
  and triggers by name, the comments on them, and the rows of \<open>wc_events\<close> and
  \<open>wc_venues\<close>. Both tables are taken to exist with their source columns. A row
  always carries its derived fields; a column that is not yet in \<open>columns\<close> gets
  its field set to null when the column is added.
\<close>

record index_def =
  idx_table :: string
  idx_method :: string
  idx_on :: string

record trigger_def =
  trg_update_of :: "string list"
  trg_function :: string

datatype function_body =
    Event_search_vector_body
  | Venue_search_vector_body
  | Venue_location_body

record database =
  available_extensions :: "string set"
  extensions :: "string set"
  columns :: "(string \<times> string) set"
  column_comments :: "string \<times> string \<rightharpoonup> string"
  indexes :: "string \<rightharpoonup> index_def"
  index_comments :: "string \<rightharpoonup> string"
  plpgsql_functions :: "string \<rightharpoonup> function_body"
  function_comments :: "string \<rightharpoonup> string"
  triggers :: "string \<times> string \<rightharpoonup> trigger_def"
  wc_events :: "event list"
  wc_venues :: "venue list"

text \<open>
  A statement either changes the state or ends with an error and changes nothing. It
  ends with an error when an object it names is missing (a column, an index, a
  function, or a type, function or operator class that an extension provides), or,
  for the statements without a guard of their own, when the object it creates is
  already there. What a statement needs is written as a predicate on the state.
\<close>

definition always :: "database \<Rightarrow> bool" where
  "always s = True"

definition has_extension :: "string \<Rightarrow> database \<Rightarrow> bool" where
  "has_extension ext s = (ext \<in> extensions s)"

definition has_column :: "string \<Rightarrow> string \<Rightarrow> database \<Rightarrow> bool" where
  "has_column tbl col s = ((tbl, col) \<in> columns s)"

definition has_both :: "(database \<Rightarrow> bool) \<Rightarrow> (database \<Rightarrow> bool) \<Rightarrow> database \<Rightarrow> bool" where
  "has_both p q s = (p s \<and> q s)"

text \<open>
  \<^verbatim>\<open>CREATE EXTENSION IF NOT EXISTS ext\<close>: nothing when the extension is installed;
  otherwise it is installed, if the server offers it.
\<close>

definition create_extension_if_not_exists :: "string \<Rightarrow> database \<Rightarrow> sql_error + database" where
  "create_extension_if_not_exists ext s =
     (if ext \<in> extensions s then Inr s
      else if ext \<in> available_extensions s
        then Inr (s\<lparr>extensions := insert ext (extensions s)\<rparr>)
      else Inl Undefined_file)"

text \<open>
  The \<open>DO\<close> block of the PostGIS migration that raises an exception when the
  \<open>geography\<close> type, which the extension provides, is missing; and the \<open>DO\<close>
  blocks that count rows and raise notices.
\<close>

definition do_verify_postgis :: "database \<Rightarrow> sql_error + database" where
  "do_verify_postgis s =
     (if ''postgis'' \<in> extensions s then Inr s else Inl Raise_exception)"

definition do_raise_notice :: "database \<Rightarrow> sql_error + database" where
  "do_raise_notice s = Inr s"

text \<open>
  \<^verbatim>\<open>ALTER TABLE tbl ADD COLUMN IF NOT EXISTS col type\<close>: the type must exist; then
  nothing when the column exists, otherwise the column is added and is null in every
  row (\<open>fill_null\<close>).
\<close>

definition add_column_if_not_exists ::
  "string \<Rightarrow> string \<Rightarrow> (database \<Rightarrow> bool) \<Rightarrow> (database \<Rightarrow> database) \<Rightarrow> database \<Rightarrow>
   sql_error + database" where
  "add_column_if_not_exists tbl col needs fill_null s =
     (if needs s
      then (if (tbl, col) \<in> columns s then Inr s
            else Inr (fill_null (s\<lparr>columns := insert (tbl, col) (columns s)\<rparr>)))
      else Inl Undefined_object)"

definition null_events_search_vector :: "database \<Rightarrow> database" where
  "null_events_search_vector s =
     s\<lparr>wc_events := map (\<lambda>e. e\<lparr>e_search_vector := None\<rparr>) (wc_events s)\<rparr>"

definition null_venues_search_vector :: "database \<Rightarrow> database" where
  "null_venues_search_vector s =
     s\<lparr>wc_venues := map (\<lambda>v. v\<lparr>v_search_vector := None\<rparr>) (wc_venues s)\<rparr>"

definition null_venues_location :: "database \<Rightarrow> database" where
  "null_venues_location s =
     s\<lparr>wc_venues := map (\<lambda>v. v\<lparr>v_location := None\<rparr>) (wc_venues s)\<rparr>"

text \<open>\<^verbatim>\<open>COMMENT ON COLUMN / INDEX / FUNCTION ... IS txt\<close>\<close>

definition comment_on_column ::
  "string \<Rightarrow> string \<Rightarrow> string \<Rightarrow> database \<Rightarrow> sql_error + database" where
  "comment_on_column tbl col txt s =
     (if (tbl, col) \<in> columns s
      then Inr (s\<lparr>column_comments := (column_comments s)((tbl, col) \<mapsto> txt)\<rparr>)
      else Inl Undefined_object)"

definition comment_on_index :: "string \<Rightarrow> string \<Rightarrow> database \<Rightarrow> sql_error + database" where
  "comment_on_index idx txt s =
     (if indexes s idx = None then Inl Undefined_object
      else Inr (s\<lparr>index_comments := (index_comments s)(idx \<mapsto> txt)\<rparr>))"

definition comment_on_function :: "string \<Rightarrow> string \<Rightarrow> database \<Rightarrow> sql_error + database" where
  "comment_on_function fn txt s =
     (if plpgsql_functions s fn = None then Inl Undefined_object
      else Inr (s\<lparr>function_comments := (function_comments s)(fn \<mapsto> txt)\<rparr>))"

text \<open>
  The three backfill statements,
  \<^verbatim>\<open>UPDATE ... SET search_vector = ... WHERE search_vector IS NULL\<close> and
  \<^verbatim>\<open>UPDATE ... SET location = ... WHERE lat IS NOT NULL AND lon IS NOT NULL AND location IS NULL\<close>.
  Their \<open>SET\<close> lists target only the derived column, which no trigger of the
  migrations is declared on, so they run no trigger function. The location backfill
  casts the point of every row it selects; when one cast fails, the statement fails
  and no row is changed.
\<close>

definition backfill_events_search_vector :: "ts_config \<Rightarrow> database \<Rightarrow> sql_error + database" where
  "backfill_events_search_vector english s =
     (if (''wc_events'', ''search_vector'') \<in> columns s
      then Inr (s\<lparr>wc_events := map
        (\<lambda>e. if e_search_vector e = None
             then e\<lparr>e_search_vector := Some (tsvector_concat
                    (setweight (to_tsvector english (COALESCE (e_title e) '''')) WeightA)
                    (setweight (to_tsvector english (COALESCE (e_description e) '''')) WeightB))\<rparr>
             else e)
        (wc_events s)\<rparr>)
      else Inl Undefined_object)"

definition backfill_venues_search_vector :: "ts_config \<Rightarrow> database \<Rightarrow> sql_error + database" where
  "backfill_venues_search_vector english s =
     (if (''wc_venues'', ''search_vector'') \<in> columns s
      then Inr (s\<lparr>wc_venues := map
        (\<lambda>v. if v_search_vector v = None
             then v\<lparr>v_search_vector := Some (to_tsvector english (COALESCE (v_name v) ''''))\<rparr>
             else v)
        (wc_venues s)\<rparr>)
      else Inl Undefined_object)"

definition fill_location :: "out_of_range_policy \<Rightarrow> venue \<Rightarrow> sql_error + venue" where
  "fill_location force_geodetic v =
     (if v_lat v \<noteq> None \<and> v_lon v \<noteq> None \<and> v_location v = None
      then (case to_geography force_geodetic
                   (ST_SetSRID (ST_MakePoint (the (v_lon v)) (the (v_lat v))) 4326) of
              Inl err \<Rightarrow> Inl err
            | Inr p \<Rightarrow> Inr (v\<lparr>v_location := Some p\<rparr>))
      else Inr v)"

fun fill_rows :: "('r \<Rightarrow> sql_error + 'r) \<Rightarrow> 'r list \<Rightarrow> sql_error + 'r list" where
  "fill_rows fill [] = Inr []"
| "fill_rows fill (r # rs) =
     (case fill r of
        Inl err \<Rightarrow> Inl err
      | Inr r' \<Rightarrow>
          (case fill_rows fill rs of
             Inl err \<Rightarrow> Inl err
           | Inr rs' \<Rightarrow> Inr (r' # rs')))"

definition backfill_venues_location :: "out_of_range_policy \<Rightarrow> database \<Rightarrow> sql_error + database" where
  "backfill_venues_location force_geodetic s =
     (if ''postgis'' \<in> extensions s \<and> (''wc_venues'', ''location'') \<in> columns s
      then (case fill_rows (fill_location force_geodetic) (wc_venues s) of
              Inl err \<Rightarrow> Inl err
            | Inr rows \<Rightarrow> Inr (s\<lparr>wc_venues := rows\<rparr>))
      else Inl Undefined_object)"

text \<open>
  \<^verbatim>\<open>CREATE INDEX IF NOT EXISTS idx ON tbl USING method (expr)\<close>: the indexed column
  and the operator class must exist; then nothing when a relation of that name
  exists, otherwise the index is created.
\<close>

definition create_index_if_not_exists ::
  "string \<Rightarrow> index_def \<Rightarrow> (database \<Rightarrow> bool) \<Rightarrow> database \<Rightarrow> sql_error + database" where
  "create_index_if_not_exists idx d needs s =
     (if needs s
      then (if indexes s idx = None then Inr (s\<lparr>indexes := (indexes s)(idx \<mapsto> d)\<rparr>)
            else Inr s)
      else Inl Undefined_object)"

text \<open>
  \<^verbatim>\<open>CREATE OR REPLACE FUNCTION\<close>; \<^verbatim>\<open>DROP FUNCTION IF EXISTS\<close>, which fails while
  a trigger still calls the function and otherwise removes it with its comment;
  \<^verbatim>\<open>DROP TRIGGER IF EXISTS\<close>; and \<^verbatim>\<open>CREATE TRIGGER\<close>
  (\<open>BEFORE INSERT OR UPDATE OF ... FOR EACH ROW\<close>), which has no guard of its own:
  it fails when the trigger exists, and when its function does not.
\<close>

definition create_or_replace_function ::
  "string \<Rightarrow> function_body \<Rightarrow> database \<Rightarrow> sql_error + database" where
  "create_or_replace_function fn body s =
     Inr (s\<lparr>plpgsql_functions := (plpgsql_functions s)(fn \<mapsto> body)\<rparr>)"

definition drop_function_if_exists :: "string \<Rightarrow> database \<Rightarrow> sql_error + database" where
  "drop_function_if_exists fn s =
     (if fn \<in> trg_function ` ran (triggers s) then Inl Dependent_objects_still_exist
      else Inr (s\<lparr>plpgsql_functions := (plpgsql_functions s)(fn := None),
                  function_comments := (function_comments s)(fn := None)\<rparr>))"

definition drop_trigger_if_exists :: "string \<Rightarrow> string \<Rightarrow> database \<Rightarrow> sql_error + database" where
  "drop_trigger_if_exists trg tbl s =
     Inr (s\<lparr>triggers := (triggers s)((tbl, trg) := None)\<rparr>)"

definition create_trigger ::
  "string \<Rightarrow> string \<Rightarrow> trigger_def \<Rightarrow> database \<Rightarrow> sql_error + database" where
  "create_trigger trg tbl d s =
     (if triggers s (tbl, trg) = None
      then (if plpgsql_functions s (trg_function d) = None then Inl Undefined_object
            else Inr (s\<lparr>triggers := (triggers s)((tbl, trg) \<mapsto> d)\<rparr>))
      else Inl Duplicate_object)"

text \<open>
  \<open>ANALYZE\<close> and the verification queries change nothing of the state above. A
  query fails when something it names is missing; the queries that compute
  \<^verbatim>\<open>COUNT(col) * 100.0 / COUNT(*)\<close> also fail, with a division by zero, on an
  empty table.
\<close>

definition analyze :: "database \<Rightarrow> sql_error + database" where
  "analyze s = Inr s"

definition select_from :: "(database \<Rightarrow> bool) \<Rightarrow> database \<Rightarrow> sql_error + database" where
  "select_from needs s = (if needs s then Inr s else Inl Undefined_object)"

definition select_percentage ::
  "(database \<Rightarrow> bool) \<Rightarrow> (database \<Rightarrow> nat list) \<Rightarrow> database \<Rightarrow> sql_error + database" where
  "select_percentage needs counts s =
     (if needs s
      then (if 0 \<in> set (counts s) then Inl Division_by_zero else Inr s)
      else Inl Undefined_object)"

definition count_events_and_venues :: "database \<Rightarrow> nat list" where
  "count_events_and_venues s = [length (wc_events s), length (wc_venues s)]"

definition count_venues :: "database \<Rightarrow> nat list" where
  "count_venues s = [length (wc_venues s)]"

text \<open>
  A script is a list of items: statements, and pieces of text that are not SQL. Two
  ways of running it. Statement by statement, each in its own transaction (as
  \<open>psql\<close> reads a file): a failing item is reported and skipped, and the run goes
  on. As one batch in one transaction: the text is parsed as a whole, so a piece that
  is not SQL fails the batch before anything runs, and the first failing statement
  undoes the statements before it. Both give the errors reported and the state left.
\<close>

datatype script_item = Sql "database \<Rightarrow> sql_error + database" | Not_sql

fun run_item :: "script_item \<Rightarrow> database \<Rightarrow> sql_error + database" where
  "run_item (Sql stmt) s = stmt s"
| "run_item Not_sql s = Inl Syntax_error"

fun is_sql :: "script_item \<Rightarrow> bool" where
  "is_sql (Sql stmt) = True"
| "is_sql Not_sql = False"

fun each_from :: "sql_error list \<Rightarrow> database \<Rightarrow> script_item list \<Rightarrow> sql_error list \<times> database" where
  "each_from errs s [] = (errs, s)"
| "each_from errs s (item # items) =
     (case run_item item s of
        Inl err \<Rightarrow> each_from (errs @ [err]) s items
      | Inr s' \<Rightarrow> each_from errs s' items)"

definition run_each :: "script_item list \<Rightarrow> database \<Rightarrow> sql_error list \<times> database" where
  "run_each items s = each_from [] s items"

fun run_all :: "script_item list \<Rightarrow> database \<Rightarrow> sql_error + database" where
  "run_all [] s = Inr s"
| "run_all (item # items) s =
     (case run_item item s of
        Inl err \<Rightarrow> Inl err
      | Inr s' \<Rightarrow> run_all items s')"

definition run_batch :: "script_item list \<Rightarrow> database \<Rightarrow> sql_error list \<times> database" where
  "run_batch items s =
     (if list_all is_sql items
      then (case run_all items s of
              Inl err \<Rightarrow> ([err], s)
            | Inr s' \<Rightarrow> ([], s'))
      else ([Syntax_error], s))"

text \<open>The text search migration, item by item.\<close>

definition text_search_script :: "ts_config \<Rightarrow> script_item list" where
  "text_search_script english =
     [Sql (add_column_if_not_exists ''wc_events'' ''search_vector'' always
             null_events_search_vector),
      Sql (comment_on_column ''wc_events'' ''search_vector''
             ''Full-text search vector combining title and description for fast text search''),
      Sql (add_column_if_not_exists ''wc_venues'' ''search_vector'' always
             null_venues_search_vector),
      Sql (comment_on_column ''wc_venues'' ''search_vector''
             ''Full-text search vector for venue name for fast text search''),
      Sql (backfill_events_search_vector english),
      Sql (backfill_venues_search_vector english),
      Sql do_raise_notice,
      Sql (create_index_if_not_exists ''idx_wc_events_search_vector''
             \<lparr>idx_table = ''wc_events'', idx_method = ''GIN'', idx_on = ''search_vector''\<rparr>
             (has_column ''wc_events'' ''search_vector'')),
      Sql (comment_on_index ''idx_wc_events_search_vector''
             ''GIN index for fast full-text search on event titles and descriptions''),
      Sql (create_index_if_not_exists ''idx_wc_venues_search_vector''
             \<lparr>idx_table = ''wc_venues'', idx_method = ''GIN'', idx_on = ''search_vector''\<rparr>
             (has_column ''wc_venues'' ''search_vector'')),
      Sql (comment_on_index ''idx_wc_venues_search_vector''
             ''GIN index for fast full-text search on venue names''),
      Sql (create_extension_if_not_exists ''pg_trgm''),
      Sql (create_index_if_not_exists ''idx_wc_events_title_trgm''
             \<lparr>idx_table = ''wc_events'', idx_method = ''GIN'',
              idx_on = ''LOWER(title) gin_trgm_ops''\<rparr>
             (has_extension ''pg_trgm'')),
      Sql (create_index_if_not_exists ''idx_wc_events_description_trgm''
             \<lparr>idx_table = ''wc_events'', idx_method = ''GIN'',
              idx_on = ''LOWER(description) gin_trgm_ops''\<rparr>
             (has_extension ''pg_trgm'')),
      Sql (create_index_if_not_exists ''idx_wc_venues_name_trgm''
             \<lparr>idx_table = ''wc_venues'', idx_method = ''GIN'',
              idx_on = ''LOWER(name) gin_trgm_ops''\<rparr>
             (has_extension ''pg_trgm'')),
      Sql (create_or_replace_function ''update_event_search_vector'' Event_search_vector_body),
      Sql (create_or_replace_function ''update_venue_search_vector'' Venue_search_vector_body),
      Sql (drop_trigger_if_exists ''trigger_update_event_search_vector'' ''wc_events''),
      Sql (create_trigger ''trigger_update_event_search_vector'' ''wc_events''
             \<lparr>trg_update_of = [''title'', ''description''],
              trg_function = ''update_event_search_vector''\<rparr>),
      Sql (drop_trigger_if_exists ''trigger_update_venue_search_vector'' ''wc_venues''),
      Sql (create_trigger ''trigger_update_venue_search_vector'' ''wc_venues''
             \<lparr>trg_update_of = [''name''], trg_function = ''update_venue_search_vector''\<rparr>),
      Sql analyze,
      Sql analyze,
      Sql (select_percentage
             (has_both (has_column ''wc_events'' ''search_vector'')
                (has_column ''wc_venues'' ''search_vector''))
             count_events_and_venues),
      Sql (select_from always),
      Sql (select_from (has_column ''wc_events'' ''search_vector'')),
      Sql (select_from (has_extension ''pg_trgm'')),
      Sql do_raise_notice]"

text \<open>
  The PostGIS migration, item by item. Its last five lines are \<open>RAISE NOTICE\<close>
  outside any \<open>DO\<close> block, which is not SQL.
\<close>

definition postgis_script :: "out_of_range_policy \<Rightarrow> script_item list" where
  "postgis_script force_geodetic =
     [Sql (create_extension_if_not_exists ''postgis''),
      Sql do_verify_postgis,
      Sql (add_column_if_not_exists ''wc_venues'' ''location'' (has_extension ''postgis'')
             null_venues_location),
      Sql (comment_on_column ''wc_venues'' ''location''
             ''PostGIS geography point for efficient spatial queries. Auto-populated from lat/lon.''),
      Sql (backfill_venues_location force_geodetic),
      Sql do_raise_notice,
      Sql (create_index_if_not_exists ''idx_wc_venues_location''
             \<lparr>idx_table = ''wc_venues'', idx_method = ''GIST'', idx_on = ''location''\<rparr>
             (has_column ''wc_venues'' ''location'')),
      Sql (comment_on_index ''idx_wc_venues_location''
             ''Spatial index for fast distance queries using PostGIS''),
      Sql (drop_trigger_if_exists ''trigger_update_venue_location'' ''wc_venues''),
      Sql (drop_function_if_exists ''update_venue_location''),
      Sql (create_or_replace_function ''update_venue_location'' Venue_location_body),
      Sql (comment_on_function ''update_venue_location''
             ''Automatically updates geography location column when lat/lon changes''),
      Sql (create_trigger ''trigger_update_venue_location'' ''wc_venues''
             \<lparr>trg_update_of = [''lat'', ''lon''], trg_function = ''update_venue_location''\<rparr>),
      Sql analyze,
      Sql (select_percentage (has_column ''wc_venues'' ''location'') count_venues),
      Sql (select_from always),
      Sql (select_from
             (has_both (has_extension ''postgis'') (has_column ''wc_venues'' ''location''))),
      Not_sql, Not_sql, Not_sql, Not_sql, Not_sql]"

section \<open>Helper facts\<close>

lemma weight_of_setweight: "map weight_of (setweight vec w) = replicate (length vec) w"
  by (induction vec) (auto simp: setweight_def weight_of_def)

lemma weight_of_labelled:
  "map weight_of (map (\<lambda>(lexeme, pos). (lexeme, pos, w)) occs) = replicate (length occs) w"
  by (induction occs) (auto simp: weight_of_def)

lemma weight_of_to_tsvector:
  "map weight_of (to_tsvector config doc) = replicate (length (config doc)) WeightD"
  unfolding to_tsvector_def by (rule weight_of_labelled)

lemma weight_of_concat:
  "map weight_of (tsvector_concat a b) = map weight_of a @ map weight_of b"
  by (simp add: tsvector_concat_def weight_of_def case_prod_unfold)

lemma length_setweight: "length (setweight vec w) = length vec"
  by (simp add: setweight_def)

lemma length_to_tsvector: "length (to_tsvector config doc) = length (config doc)"
  by (simp add: to_tsvector_def)

lemma cast_of_built_point:
  "to_geography force_geodetic (ST_SetSRID (ST_MakePoint x y) 4326) =
     to_geography force_geodetic \<lparr>geom_x = x, geom_y = y, geom_srid = 4326\<rparr>"
  by (simp add: ST_SetSRID_def ST_MakePoint_def)

section \<open>Venue location derivation\<close>

text \<open>
  C1 (amended). The derivation run on write makes no range check of its own and has
  no error of its own to signal. For every pair of non-null coordinates inside
  longitude [-180, 180] and latitude [-90, 90] it returns the row with the point
  built from (longitude, latitude) and SRID 4326, without error. For a pair outside,
  the outcome is that of the PostGIS cast: where the cast coerces, the row is
  returned with the coerced point; the write fails only where the cast itself fails.
\<close>

theorem update_venue_location_unchecked:
  "update_venue_location force_geodetic (NEW\<lparr>v_lat := Some la, v_lon := Some lo\<rparr>) =
     (if in_geographic_range lo la
      then Inr (NEW\<lparr>v_lat := Some la, v_lon := Some lo,
                  v_location := Some \<lparr>geog_lon = lo, geog_lat = la, geog_srid = 4326\<rparr>\<rparr>)
      else (case force_geodetic lo la of
              Inl err \<Rightarrow> Inl err
            | Inr (x, y) \<Rightarrow>
                Inr (NEW\<lparr>v_lat := Some la, v_lon := Some lo,
                       v_location := Some \<lparr>geog_lon = x, geog_lat = y, geog_srid = 4326\<rparr>\<rparr>)))"
  by (simp add: update_venue_location_def to_geography_def ST_SetSRID_def ST_MakePoint_def
      split: sum.split prod.split)

text \<open>
  C1 as stated fails: latitude 91 is outside [-90, 90], and with the coercion of
  current PostGIS releases the derivation signals nothing and returns the row with a
  point, the one at latitude 89.
\<close>

theorem update_venue_location_out_of_range:
  "\<not> in_geographic_range 0 91 \<and>
   update_venue_location coerce_into_range venue_beyond_pole =
     Inr (venue_beyond_pole
            \<lparr>v_location := Some \<lparr>geog_lon = 0, geog_lat = 89, geog_srid = 4326\<rparr>\<rparr>)"
  by (simp add: update_venue_location_def to_geography_def ST_SetSRID_def ST_MakePoint_def
      in_geographic_range_def venue_beyond_pole_def coerce_into_range_def
      longitude_degrees_normalize_def latitude_degrees_normalize_def)

text \<open>
  The same row under the refusal of old releases: the error is the cast's, and the
  write is rejected.
\<close>

lemma update_venue_location_refused:
  "update_venue_location reject_out_of_range venue_beyond_pole = Inl Coordinate_out_of_range"
  by (simp add: update_venue_location_def to_geography_def ST_SetSRID_def ST_MakePoint_def
      in_geographic_range_def venue_beyond_pole_def reject_out_of_range_def)

section \<open>The location invariant under writes\<close>

lemma update_venue_location_in_sync:
  "update_venue_location force_geodetic NEW = Inr NEW' \<Longrightarrow>
   location_in_sync force_geodetic NEW'"
  by (auto simp: location_in_sync_def update_venue_location_def cast_of_built_point
      split: if_splits sum.splits)

lemma search_vector_keeps_sync:
  "location_in_sync force_geodetic (update_venue_search_vector english v) =
     location_in_sync force_geodetic v"
  by (simp add: location_in_sync_def update_venue_search_vector_def cong: option.case_cong)

lemma insert_venue_in_sync:
  "insert_venue force_geodetic english NEW = Inr row \<Longrightarrow>
   location_in_sync force_geodetic row"
  by (auto simp: insert_venue_def search_vector_keeps_sync
      dest: update_venue_location_in_sync split: sum.splits)

lemma apply_set_list_keeps_sync:
  assumes "\<not> is_target (set_lat st)" "\<not> is_target (set_lon st)"
    "\<not> is_target (set_location st)" "location_in_sync force_geodetic OLD"
  shows "location_in_sync force_geodetic (apply_set_list st OLD)"
  using assms
  by (cases "set_lat st"; cases "set_lon st"; cases "set_location st")
     (simp_all add: location_in_sync_def apply_set_list_def assign_def is_target_def
        cong: option.case_cong)

lemma update_venue_in_sync:
  assumes "keeps_location_derived st" "location_in_sync force_geodetic OLD"
    "update_venue force_geodetic english st OLD = Inr NEW'"
  shows "location_in_sync force_geodetic NEW'"
proof (cases "is_target (set_lat st) \<or> is_target (set_lon st)")
  case True
  with assms(3) obtain NEW1 where
    fired: "update_venue_location force_geodetic (apply_set_list st OLD) = Inr NEW1" and
    result: "NEW' = (if is_target (set_name st)
                     then update_venue_search_vector english NEW1 else NEW1)"
    by (auto simp: update_venue_def Let_def split: sum.splits)
  from fired have "location_in_sync force_geodetic NEW1"
    by (rule update_venue_location_in_sync)
  with result show ?thesis
    by (simp add: search_vector_keeps_sync)
next
  case False
  with assms(1) have "\<not> is_target (set_location st)"
    by (simp add: keeps_location_derived_def assigns_location_alone_def)
  with False assms(2) have "location_in_sync force_geodetic (apply_set_list st OLD)"
    by (simp add: apply_set_list_keeps_sync)
  with False assms(3) show ?thesis
    by (auto simp: update_venue_def Let_def search_vector_keeps_sync split: if_splits)
qed

lemma update_or_keep_in_sync:
  "keeps_location_derived st \<Longrightarrow> location_in_sync force_geodetic row \<Longrightarrow>
   location_in_sync force_geodetic (update_or_keep force_geodetic english row st)"
  by (auto simp: update_or_keep_def dest: update_venue_in_sync split: sum.splits)

lemma foldl_update_in_sync:
  "list_all keeps_location_derived sts \<Longrightarrow> location_in_sync force_geodetic row \<Longrightarrow>
   location_in_sync force_geodetic (foldl (update_or_keep force_geodetic english) row sts)"
  by (induction sts arbitrary: row) (simp_all add: update_or_keep_in_sync)

lemma update_null_coordinate_clears:
  "set_lat st = Some None \<or> set_lon st = Some None \<Longrightarrow>
   \<exists>row. update_venue force_geodetic english st OLD = Inr row \<and> v_location row = None"
  by (auto simp: update_venue_def Let_def is_target_def update_venue_location_def
      update_venue_search_vector_def apply_set_list_def assign_def)

lemma in_sync_in_range:
  "location_in_sync force_geodetic row \<Longrightarrow> v_lat row = Some la \<Longrightarrow> v_lon row = Some lo \<Longrightarrow>
   in_geographic_range lo la \<Longrightarrow>
   v_location row = Some \<lparr>geog_lon = lo, geog_lat = la, geog_srid = 4326\<rparr>"
  by (auto simp: location_in_sync_def to_geography_def split: option.splits)

text \<open>
  C2. For every venue row reached by an insert followed by updates, none of which
  authors \<open>location\<close> independently of \<open>lat\<close> and \<open>lon\<close>, \<open>location\<close> is
  present iff both coordinates are non-null, and then it is the value of the fixed
  transform, the cast of the point built from (longitude, latitude) with SRID 4326:
  for coordinates in the geographic range, the point (longitude, latitude, 4326)
  itself. An update that sets either coordinate to null is accepted and leaves
  \<open>location\<close> null.
\<close>

theorem location_invariant_under_writes:
  "(list_all keeps_location_derived sts \<and>
    venue_after_writes force_geodetic english NEW sts = Inr reached \<longrightarrow>
      location_in_sync force_geodetic reached) \<and>
   (set_lat st = Some None \<or> set_lon st = Some None \<longrightarrow>
      (\<exists>row. update_venue force_geodetic english st OLD = Inr row \<and> v_location row = None)) \<and>
   (location_in_sync force_geodetic row \<and> v_lat row = Some la \<and> v_lon row = Some lo \<and>
    in_geographic_range lo la \<longrightarrow>
      v_location row = Some \<lparr>geog_lon = lo, geog_lat = la, geog_srid = 4326\<rparr>)"
  by (auto simp: venue_after_writes_def foldl_update_in_sync insert_venue_in_sync
      update_null_coordinate_clears in_sync_in_range split: sum.splits)

theorem location_invariant_under_writes_witness:
  "list_all keeps_location_derived [set_lat_91, set_lon_null] \<and>
   venue_after_writes reject_out_of_range whole_text_config venue_A [set_lat_91, set_lon_null] =
     Inr (venue_A\<lparr>v_lon := None, v_location := None,
            v_search_vector := Some [(''Lucas Oil Stadium'', 1, WeightD)]\<rparr>) \<and>
   location_in_sync reject_out_of_range
     (venue_A\<lparr>v_lon := None, v_location := None,
        v_search_vector := Some [(''Lucas Oil Stadium'', 1, WeightD)]\<rparr>) \<and>
   set_lon set_lon_null = Some None \<and>
   update_venue reject_out_of_range whole_text_config set_lon_null venue_A =
     Inr (venue_A\<lparr>v_lon := None\<rparr>) \<and>
   insert_venue reject_out_of_range whole_text_config venue_A =
     Inr (venue_A\<lparr>v_location := Some \<lparr>geog_lon = -86.1581, geog_lat = 39.7684, geog_srid = 4326\<rparr>,
            v_search_vector := Some [(''Lucas Oil Stadium'', 1, WeightD)]\<rparr>) \<and>
   location_in_sync reject_out_of_range
     (venue_A\<lparr>v_location := Some \<lparr>geog_lon = -86.1581, geog_lat = 39.7684, geog_srid = 4326\<rparr>,
        v_search_vector := Some [(''Lucas Oil Stadium'', 1, WeightD)]\<rparr>) \<and>
   in_geographic_range (-86.1581) 39.7684"
proof -
  let ?inserted = "venue_A\<lparr>v_location :=
      Some \<lparr>geog_lon = -86.1581, geog_lat = 39.7684, geog_srid = 4326\<rparr>,
      v_search_vector := Some [(''Lucas Oil Stadium'', 1, WeightD)]\<rparr>"
  let ?reached = "venue_A\<lparr>v_lon := None, v_location := None,
      v_search_vector := Some [(''Lucas Oil Stadium'', 1, WeightD)]\<rparr>"
  have range: "in_geographic_range (-86.1581) 39.7684"
    by (simp add: in_geographic_range_def)
  have inserted: "insert_venue reject_out_of_range whole_text_config venue_A = Inr ?inserted"
    by (simp add: insert_venue_def update_venue_location_def update_venue_search_vector_def
        to_geography_def ST_SetSRID_def ST_MakePoint_def in_geographic_range_def venue_A_def
        whole_text_config_def to_tsvector_def COALESCE_def)
  have refused: "update_or_keep reject_out_of_range whole_text_config ?inserted set_lat_91 =
      ?inserted"
    by (simp add: update_or_keep_def update_venue_def Let_def set_lat_91_def set_nothing_def
        is_target_def apply_set_list_def assign_def update_venue_location_def
        to_geography_def ST_SetSRID_def ST_MakePoint_def in_geographic_range_def venue_A_def
        reject_out_of_range_def)
  have cleared: "update_or_keep reject_out_of_range whole_text_config ?inserted set_lon_null =
      ?reached"
    by (simp add: update_or_keep_def update_venue_def Let_def set_lon_null_def set_nothing_def
        is_target_def apply_set_list_def assign_def update_venue_location_def venue_A_def)
  have writes: "list_all keeps_location_derived [set_lat_91, set_lon_null]"
    by (simp add: keeps_location_derived_def assigns_location_alone_def set_lat_91_def
        set_lon_null_def set_nothing_def is_target_def)
  have reached: "venue_after_writes reject_out_of_range whole_text_config venue_A
      [set_lat_91, set_lon_null] = Inr ?reached"
    by (simp only: venue_after_writes_def inserted sum.case foldl_Cons foldl_Nil
        refused cleared)
  have null: "set_lon set_lon_null = Some None"
    by (simp add: set_lon_null_def)
  have alone: "update_venue reject_out_of_range whole_text_config set_lon_null venue_A =
      Inr (venue_A\<lparr>v_lon := None\<rparr>)"
    by (simp add: update_venue_def Let_def set_lon_null_def set_nothing_def is_target_def
        apply_set_list_def assign_def update_venue_location_def venue_A_def)
  have sync: "location_in_sync reject_out_of_range ?inserted"
    using inserted by (rule insert_venue_in_sync)
  have lat: "v_lat ?inserted = Some 39.7684" and lon: "v_lon ?inserted = Some (-86.1581)"
    by (simp_all add: venue_A_def)
  from location_invariant_under_writes
    [where sts = "[set_lat_91, set_lon_null]" and force_geodetic = reject_out_of_range
       and english = whole_text_config and NEW = venue_A and reached = ?reached
       and st = set_lon_null and OLD = venue_A and row = ?inserted
       and la = "39.7684" and lo = "-86.1581"]
    writes reached null sync lat lon range
  have "location_in_sync reject_out_of_range ?reached"
    by simp
  with writes reached null alone inserted sync range show ?thesis
    by simp
qed

section \<open>Frame of the maintenance triggers\<close>

text \<open>
  C9. Each trigger function changes at most its own derived column. The location
  trigger either ends with the error of its cast, and then returns no row, or returns
  the row with only \<open>location\<close> replaced; the two search vector triggers return the
  row with only \<open>search_vector\<close> replaced. Every source column and every further
  column of the row (the record's extension) is returned as it came.
\<close>

theorem maintenance_frame:
  "((\<exists>err. update_venue_location force_geodetic NEW = Inl err) \<or>
    (\<exists>p. update_venue_location force_geodetic NEW = Inr (NEW\<lparr>v_location := p\<rparr>))) \<and>
   (case update_venue_location force_geodetic NEW of
      Inl err \<Rightarrow> True
    | Inr NEW' \<Rightarrow>
        NEW' = NEW\<lparr>v_location := v_location NEW'\<rparr> \<and>
        v_name NEW' = v_name NEW \<and>
        v_lat NEW' = v_lat NEW \<and>
        v_lon NEW' = v_lon NEW \<and>
        v_search_vector NEW' = v_search_vector NEW \<and>
        venue.more NEW' = venue.more NEW) \<and>
   update_venue_search_vector english NEW =
     NEW\<lparr>v_search_vector := v_search_vector (update_venue_search_vector english NEW)\<rparr> \<and>
   update_event_search_vector english E =
     E\<lparr>e_search_vector := e_search_vector (update_event_search_vector english E)\<rparr> \<and>
   v_name (update_venue_search_vector english NEW) = v_name NEW \<and>
   v_lat (update_venue_search_vector english NEW) = v_lat NEW \<and>
   v_lon (update_venue_search_vector english NEW) = v_lon NEW \<and>
   v_location (update_venue_search_vector english NEW) = v_location NEW \<and>
   venue.more (update_venue_search_vector english NEW) = venue.more NEW \<and>
   e_title (update_event_search_vector english E) = e_title E \<and>
   e_description (update_event_search_vector english E) = e_description E \<and>
   e_start_at (update_event_search_vector english E) = e_start_at E \<and>
   e_venue_id (update_event_search_vector english E) = e_venue_id E \<and>
   event.more (update_event_search_vector english E) = event.more E"
  by (auto simp: update_venue_location_def update_venue_search_vector_def
      update_event_search_vector_def split: sum.splits)

section \<open>Text derivation\<close>

text \<open>
  C8. The text derivation always yields a vector, a null title, description or name
  gives the same vector as the empty string, the vector depends on nothing but the
  text columns (two rows that agree on them get the same vector), and running a
  trigger function on its own result changes nothing.
\<close>

theorem text_derivation_total_idempotent:
  "e_search_vector (update_event_search_vector english (E\<lparr>e_title := None\<rparr>)) =
     e_search_vector (update_event_search_vector english (E\<lparr>e_title := Some ''''\<rparr>)) \<and>
   e_search_vector (update_event_search_vector english (E\<lparr>e_description := None\<rparr>)) =
     e_search_vector (update_event_search_vector english (E\<lparr>e_description := Some ''''\<rparr>)) \<and>
   v_search_vector (update_venue_search_vector english (V\<lparr>v_name := None\<rparr>)) =
     v_search_vector (update_venue_search_vector english (V\<lparr>v_name := Some ''''\<rparr>)) \<and>
   e_search_vector (update_event_search_vector english E) =
     e_search_vector (update_event_search_vector english
       (E'\<lparr>e_title := e_title E, e_description := e_description E\<rparr>)) \<and>
   v_search_vector (update_venue_search_vector english V) =
     v_search_vector (update_venue_search_vector english (V'\<lparr>v_name := v_name V\<rparr>)) \<and>
   update_event_search_vector english (update_event_search_vector english E) =
     update_event_search_vector english E \<and>
   update_venue_search_vector english (update_venue_search_vector english V) =
     update_venue_search_vector english V \<and>
   e_search_vector (update_event_search_vector english E) \<noteq> None \<and>
   v_search_vector (update_venue_search_vector english V) \<noteq> None"
  by (simp add: update_event_search_vector_def update_venue_search_vector_def COALESCE_def)

text \<open>
  C4 (amended). In an event's vector every title occurrence is labelled A and every
  description occurrence is labelled B, and A weighs more than B. A venue's vector is
  built without \<open>setweight\<close>: every name occurrence keeps the default label D, which
  weighs less than B.
\<close>

theorem derived_weights:
  "map_option (map weight_of) (e_search_vector (update_event_search_vector english E)) =
     Some (replicate (length (english (COALESCE (e_title E) ''''))) WeightA @
           replicate (length (english (COALESCE (e_description E) ''''))) WeightB) \<and>
   ts_rank_weight WeightB < ts_rank_weight WeightA \<and>
   map_option (map weight_of) (v_search_vector (update_venue_search_vector english V)) =
     Some (replicate (length (english (COALESCE (v_name V) ''''))) WeightD) \<and>
   ts_rank_weight WeightD < ts_rank_weight WeightB"
  by (simp add: update_event_search_vector_def update_venue_search_vector_def
      weight_of_concat weight_of_setweight weight_of_to_tsvector length_to_tsvector)

text \<open>
  C4 as stated fails: the name of venue A is indexed with label D, the description of
  an event with label B, and D does not weigh more than B.
\<close>

theorem venue_name_weight_default:
  "v_search_vector (update_venue_search_vector whole_text_config venue_A) =
     Some [(''Lucas Oil Stadium'', 1, WeightD)] \<and>
   e_search_vector (update_event_search_vector whole_text_config event_concert) =
     Some [(''Concert Night'', 1, WeightA), (''Lucas Oil Stadium'', 2, WeightB)] \<and>
   \<not> ts_rank_weight WeightB < ts_rank_weight WeightD"
  by (simp add: update_event_search_vector_def update_venue_search_vector_def
      venue_A_def event_concert_def whole_text_config_def COALESCE_def to_tsvector_def
      setweight_def tsvector_concat_def max_pos_def)

section \<open>Sorting\<close>

text \<open>
  C3 (amended). For every request with sort "distance" and no geo filter, the sorting
  code signals nothing and returns the default ordering, \<open>e.start_at\<close> descending,
  whatever the text query is.
\<close>

theorem orderBy_distance_without_geo:
  "orderBy ''distance'' None q = Order_by_start_at_DESC"
  by (simp add: orderBy_def)

text \<open>
  C3 as stated fails: a request with sort "distance" and neither geo filter nor text
  query gets an ordering, the one by descending start time.
\<close>

theorem orderBy_distance_downgraded:
  "orderBy ''distance'' None None = Order_by_start_at_DESC"
  by (simp add: orderBy_def)

text \<open>
  C5, the code at the failing input: with sort "relevance" and the text query
  "concert" the ordering is by descending start time, the same as with no text query;
  no text-match score takes part in it.
\<close>

theorem orderBy_relevance_ignores_query:
  "orderBy ''relevance'' None (Some ''concert'') = Order_by_start_at_DESC \<and>
   orderBy ''relevance'' None None = Order_by_start_at_DESC"
  by (simp add: orderBy_def)

section \<open>Filters\<close>

lemma where_holds_append:
  "(where_holds force_geodetic ST_Distance matches row (cs @ ds) = Inr True) =
     (where_holds force_geodetic ST_Distance matches row cs = Inr True \<and>
      where_holds force_geodetic ST_Distance matches row ds = Inr True)"
  by (induction cs) (auto split: sum.splits)

lemma geographic_filtering_holds:
  "where_holds force_geodetic ST_Distance matches row (geographic_filtering (Some g) miles) =
     (case to_geography force_geodetic \<lparr>geom_x = lon g, geom_y = lat g, geom_srid = 4326\<rparr> of
        Inl err \<Rightarrow> Inl err
      | Inr centre \<Rightarrow>
          Inr (case row_v row of
                 None \<Rightarrow> False
               | Some v \<Rightarrow>
                   (case v_location v of
                      None \<Rightarrow> False
                    | Some p \<Rightarrow> ST_Distance p centre \<le> miles * 1609.34)))"
  by (auto simp: geographic_filtering_def ST_DWithin_def row_location_def
      cast_of_built_point split: sum.splits option.splits)

lemma geographic_filtering_in_range:
  "in_geographic_range (lon g) (lat g) \<Longrightarrow>
   where_holds force_geodetic ST_Distance matches row (geographic_filtering (Some g) miles) =
     Inr (case row_v row of
            None \<Rightarrow> False
          | Some v \<Rightarrow>
              (case v_location v of
                 None \<Rightarrow> False
               | Some p \<Rightarrow>
                   ST_Distance p \<lparr>geog_lon = lon g, geog_lat = lat g, geog_srid = 4326\<rparr>
                     \<le> miles * 1609.34))"
  by (simp add: geographic_filtering_holds to_geography_def)

lemma insert_null_longitude:
  "insert_venue force_geodetic english (V\<lparr>v_lat := Some la, v_lon := None\<rparr>) =
     Inr (update_venue_search_vector english
            (V\<lparr>v_lat := Some la, v_lon := None, v_location := None\<rparr>))"
  by (simp add: insert_venue_def update_venue_location_def)

lemma no_location_fails_filter:
  "row_v row = Some v \<Longrightarrow> v_location v = None \<Longrightarrow>
   where_holds force_geodetic ST_Distance matches row
     (before @ geographic_filtering (Some g) miles @ after) \<noteq> Inr True"
  by (auto simp: where_holds_append geographic_filtering_holds split: sum.splits)

text \<open>
  C7. With a geo filter active, a row passes the geographic conjuncts exactly when its
  venue has a location and the distance from that location to the filter's centre is
  at most the radius (miles times 1609.34, in metres). The centre is the cast of the
  point built from the filter's (longitude, latitude) with SRID 4326: for a centre in
  the geographic range, the point (longitude, latitude, 4326) itself. Wherever the
  conjuncts stand in the clause, a row passes the clause only if it passes them; so an
  event whose venue was inserted with a latitude and a null longitude, and has
  therefore no location, never passes.
\<close>

theorem geo_filter_within_radius:
  "where_holds force_geodetic ST_Distance matches row (geographic_filtering (Some g) miles) =
     (case to_geography force_geodetic \<lparr>geom_x = lon g, geom_y = lat g, geom_srid = 4326\<rparr> of
        Inl err \<Rightarrow> Inl err
      | Inr centre \<Rightarrow>
          Inr (case row_v row of
                 None \<Rightarrow> False
               | Some v \<Rightarrow>
                   (case v_location v of
                      None \<Rightarrow> False
                    | Some p \<Rightarrow> ST_Distance p centre \<le> miles * 1609.34))) \<and>
   (in_geographic_range (lon g) (lat g) \<longrightarrow>
      where_holds force_geodetic ST_Distance matches row (geographic_filtering (Some g) miles) =
        Inr (case row_v row of
               None \<Rightarrow> False
             | Some v \<Rightarrow>
                 (case v_location v of
                    None \<Rightarrow> False
                  | Some p \<Rightarrow>
                      ST_Distance p \<lparr>geog_lon = lon g, geog_lat = lat g, geog_srid = 4326\<rparr>
                        \<le> miles * 1609.34))) \<and>
   (where_holds force_geodetic ST_Distance matches row
        (before @ geographic_filtering (Some g) miles @ after) = Inr True) =
     (where_holds force_geodetic ST_Distance matches row before = Inr True \<and>
      where_holds force_geodetic ST_Distance matches row
        (geographic_filtering (Some g) miles) = Inr True \<and>
      where_holds force_geodetic ST_Distance matches row after = Inr True) \<and>
   insert_venue force_geodetic english (V\<lparr>v_lat := Some la, v_lon := None\<rparr>) =
     Inr (update_venue_search_vector english
            (V\<lparr>v_lat := Some la, v_lon := None, v_location := None\<rparr>)) \<and>
   where_holds force_geodetic ST_Distance matches
       (row\<lparr>row_v := Some (update_venue_search_vector english
                              (V\<lparr>v_lat := Some la, v_lon := None, v_location := None\<rparr>))\<rparr>)
       (before @ geographic_filtering (Some g) miles @ after) \<noteq> Inr True"
proof -
  have general: "where_holds force_geodetic ST_Distance matches row
      (geographic_filtering (Some g) miles) =
     (case to_geography force_geodetic \<lparr>geom_x = lon g, geom_y = lat g, geom_srid = 4326\<rparr> of
        Inl err \<Rightarrow> Inl err
      | Inr centre \<Rightarrow>
          Inr (case row_v row of
                 None \<Rightarrow> False
               | Some v \<Rightarrow>
                   (case v_location v of
                      None \<Rightarrow> False
                    | Some p \<Rightarrow> ST_Distance p centre \<le> miles * 1609.34)))"
    by (rule geographic_filtering_holds)
  have pinned: "in_geographic_range (lon g) (lat g) \<longrightarrow>
      where_holds force_geodetic ST_Distance matches row (geographic_filtering (Some g) miles) =
        Inr (case row_v row of
               None \<Rightarrow> False
             | Some v \<Rightarrow>
                 (case v_location v of
                    None \<Rightarrow> False
                  | Some p \<Rightarrow>
                      ST_Distance p \<lparr>geog_lon = lon g, geog_lat = lat g, geog_srid = 4326\<rparr>
                        \<le> miles * 1609.34))"
    by (rule impI) (rule geographic_filtering_in_range)
  have anywhere: "(where_holds force_geodetic ST_Distance matches row
        (before @ geographic_filtering (Some g) miles @ after) = Inr True) =
     (where_holds force_geodetic ST_Distance matches row before = Inr True \<and>
      where_holds force_geodetic ST_Distance matches row
        (geographic_filtering (Some g) miles) = Inr True \<and>
      where_holds force_geodetic ST_Distance matches row after = Inr True)"
    by (simp only: where_holds_append)
  have inserted: "insert_venue force_geodetic english (V\<lparr>v_lat := Some la, v_lon := None\<rparr>) =
     Inr (update_venue_search_vector english
            (V\<lparr>v_lat := Some la, v_lon := None, v_location := None\<rparr>))"
    by (rule insert_null_longitude)
  have "v_location (update_venue_search_vector english
      (V\<lparr>v_lat := Some la, v_lon := None, v_location := None\<rparr>)) = None"
    by (simp add: update_venue_search_vector_def)
  then have excluded: "where_holds force_geodetic ST_Distance matches
       (row\<lparr>row_v := Some (update_venue_search_vector english
                              (V\<lparr>v_lat := Some la, v_lon := None, v_location := None\<rparr>))\<rparr>)
       (before @ geographic_filtering (Some g) miles @ after) \<noteq> Inr True"
    by (intro no_location_fails_filter) simp_all
  from general pinned anywhere inserted excluded show ?thesis
    by (intro conjI) assumption+
qed

theorem geo_filter_within_radius_witness:
  "in_geographic_range (lon near_indianapolis) (lat near_indianapolis) \<and>
   where_holds reject_out_of_range coordinate_difference has_lexeme concert_at_A
     (geographic_filtering (Some near_indianapolis) 5) = Inr True \<and>
   where_holds reject_out_of_range coordinate_difference has_lexeme
     (concert_at_A\<lparr>row_v := Some (venue_A\<lparr>v_lon := None\<rparr>)\<rparr>)
     (geographic_filtering (Some near_indianapolis) 5) = Inr False"
proof -
  have range: "in_geographic_range (lon near_indianapolis) (lat near_indianapolis)"
    by (simp add: in_geographic_range_def near_indianapolis_def)
  note at_A = geo_filter_within_radius
    [where g = near_indianapolis and force_geodetic = reject_out_of_range
       and ST_Distance = coordinate_difference and matches = has_lexeme and miles = 5
       and row = concert_at_A,
     THEN conjunct2, THEN conjunct1, rule_format, OF range]
  note at_B = geo_filter_within_radius
    [where g = near_indianapolis and force_geodetic = reject_out_of_range
       and ST_Distance = coordinate_difference and matches = has_lexeme and miles = 5
       and row = "concert_at_A\<lparr>row_v := Some (venue_A\<lparr>v_lon := None\<rparr>)\<rparr>",
     THEN conjunct2, THEN conjunct1, rule_format, OF range]
  have passes: "where_holds reject_out_of_range coordinate_difference has_lexeme concert_at_A
      (geographic_filtering (Some near_indianapolis) 5) = Inr True"
    unfolding at_A
    by (simp add: concert_at_A_def venue_A_def near_indianapolis_def
        coordinate_difference_def)
  have fails: "where_holds reject_out_of_range coordinate_difference has_lexeme
      (concert_at_A\<lparr>row_v := Some (venue_A\<lparr>v_lon := None\<rparr>)\<rparr>)
      (geographic_filtering (Some near_indianapolis) 5) = Inr False"
    unfolding at_B
    by (simp add: concert_at_A_def venue_A_def)
  from range passes fails show ?thesis
    by (intro conjI) assumption+
qed

text \<open>
  C6. For every search request the clause is the conjuncts of the filters that are
  present, in the fixed order: the date range on the event's start time, then the
  geographic filter (a location is required and must lie within the radius of the
  point built from the request's longitude and latitude), then the text match, and
  the price range last.
\<close>

theorem where_clause_fixed_order:
  "where_clause f =
     (case date_min f of None \<Rightarrow> [] | Some d \<Rightarrow> [Start_at_ge d]) @
     (case date_max f of None \<Rightarrow> [] | Some d \<Rightarrow> [Start_at_le d]) @
     (case geoLocation f of
        None \<Rightarrow> []
      | Some g \<Rightarrow>
          [Location_is_not_null,
           ST_DWithin_location (lon g) (lat g) (radiusMiles f * 1609.34)]) @
     (case textQuery f of None \<Rightarrow> [] | Some query \<Rightarrow> [Search_vector_matches query]) @
     (case price_min f of None \<Rightarrow> [] | Some p \<Rightarrow> [Price_min_ge p]) @
     (case price_max f of None \<Rightarrow> [] | Some p \<Rightarrow> [Price_max_le p]) \<and>
   sorted (map filter_step (where_clause f)) \<and>
   where_clause
     \<lparr>date_min = Some d1, date_max = Some d2, geoLocation = Some g, radiusMiles = miles,
      textQuery = Some query, price_min = Some p1, price_max = Some p2\<rparr> =
     [Start_at_ge d1, Start_at_le d2, Location_is_not_null,
      ST_DWithin_location (lon g) (lat g) (miles * 1609.34),
      Search_vector_matches query, Price_min_ge p1, Price_max_le p2]"
  by (simp add: where_clause_def geographic_filtering_def sorted_append
      split: option.split)

section \<open>Running a migration twice\<close>

text \<open>
  The guarded statements written as plain updates of the state: creating an index
  that may exist keeps an existing entry, adding a column that may exist nulls the
  field only when the column is new, installing an extension that may be installed
  adds it.
\<close>

lemma create_index_update:
  "create_index_if_not_exists idx d needs s =
     (if needs s then Inr (s\<lparr>indexes := [idx \<mapsto> d] ++ indexes s\<rparr>)
      else Inl Undefined_object)"
proof (cases "indexes s idx")
  case None
  then have "[idx \<mapsto> d] ++ indexes s = (indexes s)(idx \<mapsto> d)"
    by (auto simp: map_add_def fun_eq_iff split: option.splits)
  with None show ?thesis by (simp add: create_index_if_not_exists_def)
next
  case (Some a)
  then have "[idx \<mapsto> d] ++ indexes s = indexes s"
    by (auto simp: map_add_def fun_eq_iff split: option.splits)
  with Some show ?thesis by (simp add: create_index_if_not_exists_def)
qed

lemma add_events_search_vector_update:
  "add_column_if_not_exists tbl col needs null_events_search_vector s =
     (if needs s
      then Inr (s\<lparr>columns := insert (tbl, col) (columns s),
                  wc_events := (if (tbl, col) \<in> columns s then wc_events s
                     else map (\<lambda>e. e\<lparr>e_search_vector := None\<rparr>) (wc_events s))\<rparr>)
      else Inl Undefined_object)"
  by (simp add: add_column_if_not_exists_def null_events_search_vector_def insert_absorb)

lemma add_venues_search_vector_update:
  "add_column_if_not_exists tbl col needs null_venues_search_vector s =
     (if needs s
      then Inr (s\<lparr>columns := insert (tbl, col) (columns s),
                  wc_venues := (if (tbl, col) \<in> columns s then wc_venues s
                     else map (\<lambda>v. v\<lparr>v_search_vector := None\<rparr>) (wc_venues s))\<rparr>)
      else Inl Undefined_object)"
  by (simp add: add_column_if_not_exists_def null_venues_search_vector_def insert_absorb)

lemma add_venues_location_update:
  "add_column_if_not_exists tbl col needs null_venues_location s =
     (if needs s
      then Inr (s\<lparr>columns := insert (tbl, col) (columns s),
                  wc_venues := (if (tbl, col) \<in> columns s then wc_venues s
                     else map (\<lambda>v. v\<lparr>v_location := None\<rparr>) (wc_venues s))\<rparr>)
      else Inl Undefined_object)"
  by (simp add: add_column_if_not_exists_def null_venues_location_def insert_absorb)

lemma create_extension_update:
  "create_extension_if_not_exists ext s =
     (if ext \<in> extensions s \<or> ext \<in> available_extensions s
      then Inr (s\<lparr>extensions := insert ext (extensions s)\<rparr>) else Inl Undefined_file)"
  by (simp add: create_extension_if_not_exists_def insert_absorb)

lemma map_add_upd_same: "((m1(k \<mapsto> d) ++ m) k = None) = False"
  by (simp add: map_add_def split: option.splits)

lemma map_add_upd_other: "j \<noteq> k \<Longrightarrow> (m1(k \<mapsto> d) ++ m) j = (m1 ++ m) j"
  by (simp add: map_add_def split: option.splits)

text \<open>
  One step of a statement-by-statement run, for each kind of statement: the error it
  may add and the field it may change, with the condition inside.
\<close>

lemma step_not_sql:
  "each_from errs s (Not_sql # items) = each_from (errs @ [Syntax_error]) s items"
  by simp

lemma step_unchanged:
  "each_from errs s (Sql do_raise_notice # items) = each_from errs s items"
  "each_from errs s (Sql analyze # items) = each_from errs s items"
  by (simp_all add: do_raise_notice_def analyze_def)

lemma step_do_verify_postgis:
  "each_from errs s (Sql do_verify_postgis # items) =
     each_from (errs @ (if ''postgis'' \<in> extensions s then [] else [Raise_exception])) s items"
  by (simp add: do_verify_postgis_def)

lemma step_select_from:
  "each_from errs s (Sql (select_from needs) # items) =
     each_from (errs @ (if needs s then [] else [Undefined_object])) s items"
  by (simp add: select_from_def)

lemma step_select_percentage:
  "each_from errs s (Sql (select_percentage needs counts) # items) =
     each_from (errs @ (if needs s then (if 0 \<in> set (counts s) then [Division_by_zero] else [])
                        else [Undefined_object])) s items"
  by (simp add: select_percentage_def)

lemma step_create_extension:
  "each_from errs s (Sql (create_extension_if_not_exists ext) # items) =
     each_from
       (errs @ (if ext \<in> extensions s \<or> ext \<in> available_extensions s then []
                else [Undefined_file]))
       (s\<lparr>extensions := (if ext \<in> extensions s \<or> ext \<in> available_extensions s
                          then insert ext (extensions s) else extensions s)\<rparr>)
       items"
  by (simp add: create_extension_update)

lemma step_add_events_search_vector:
  "each_from errs s
     (Sql (add_column_if_not_exists tbl col needs null_events_search_vector) # items) =
     each_from (errs @ (if needs s then [] else [Undefined_object]))
       (s\<lparr>columns := (if needs s then insert (tbl, col) (columns s) else columns s),
          wc_events := (if needs s \<and> (tbl, col) \<notin> columns s
                        then map (\<lambda>e. e\<lparr>e_search_vector := None\<rparr>) (wc_events s)
                        else wc_events s)\<rparr>)
       items"
  by (simp add: add_events_search_vector_update)

lemma step_add_venues_search_vector:
  "each_from errs s
     (Sql (add_column_if_not_exists tbl col needs null_venues_search_vector) # items) =
     each_from (errs @ (if needs s then [] else [Undefined_object]))
       (s\<lparr>columns := (if needs s then insert (tbl, col) (columns s) else columns s),
          wc_venues := (if needs s \<and> (tbl, col) \<notin> columns s
                        then map (\<lambda>v. v\<lparr>v_search_vector := None\<rparr>) (wc_venues s)
                        else wc_venues s)\<rparr>)
       items"
  by (simp add: add_venues_search_vector_update)

lemma step_add_venues_location:
  "each_from errs s
     (Sql (add_column_if_not_exists tbl col needs null_venues_location) # items) =
     each_from (errs @ (if needs s then [] else [Undefined_object]))
       (s\<lparr>columns := (if needs s then insert (tbl, col) (columns s) else columns s),
          wc_venues := (if needs s \<and> (tbl, col) \<notin> columns s
                        then map (\<lambda>v. v\<lparr>v_location := None\<rparr>) (wc_venues s)
                        else wc_venues s)\<rparr>)
       items"
  by (simp add: add_venues_location_update)

lemma step_comment_on_column:
  "each_from errs s (Sql (comment_on_column tbl col txt) # items) =
     each_from (errs @ (if (tbl, col) \<in> columns s then [] else [Undefined_object]))
       (s\<lparr>column_comments := (if (tbl, col) \<in> columns s
                               then (column_comments s)((tbl, col) \<mapsto> txt)
                               else column_comments s)\<rparr>)
       items"
  by (simp add: comment_on_column_def)

lemma step_comment_on_index:
  "each_from errs s (Sql (comment_on_index idx txt) # items) =
     each_from (errs @ (if indexes s idx = None then [Undefined_object] else []))
       (s\<lparr>index_comments := (if indexes s idx = None then index_comments s
                              else (index_comments s)(idx \<mapsto> txt))\<rparr>)
       items"
  by (simp add: comment_on_index_def)

lemma step_comment_on_function:
  "each_from errs s (Sql (comment_on_function fn txt) # items) =
     each_from (errs @ (if plpgsql_functions s fn = None then [Undefined_object] else []))
       (s\<lparr>function_comments := (if plpgsql_functions s fn = None then function_comments s
                                 else (function_comments s)(fn \<mapsto> txt))\<rparr>)
       items"
  by (simp add: comment_on_function_def)

lemma step_backfill_events_search_vector:
  "each_from errs s (Sql (backfill_events_search_vector english) # items) =
     each_from
       (errs @ (if (''wc_events'', ''search_vector'') \<in> columns s then []
                else [Undefined_object]))
       (s\<lparr>wc_events :=
            (if (''wc_events'', ''search_vector'') \<in> columns s
             then map
               (\<lambda>e. if e_search_vector e = None
                    then e\<lparr>e_search_vector := Some (tsvector_concat
                           (setweight (to_tsvector english (COALESCE (e_title e) '''')) WeightA)
                           (setweight (to_tsvector english (COALESCE (e_description e) ''''))
                              WeightB))\<rparr>
                    else e)
               (wc_events s)
             else wc_events s)\<rparr>)
       items"
  by (simp add: backfill_events_search_vector_def)

lemma step_backfill_venues_search_vector:
  "each_from errs s (Sql (backfill_venues_search_vector english) # items) =
     each_from
       (errs @ (if (''wc_venues'', ''search_vector'') \<in> columns s then []
                else [Undefined_object]))
       (s\<lparr>wc_venues :=
            (if (''wc_venues'', ''search_vector'') \<in> columns s
             then map
               (\<lambda>v. if v_search_vector v = None
                    then v\<lparr>v_search_vector :=
                           Some (to_tsvector english (COALESCE (v_name v) ''''))\<rparr>
                    else v)
               (wc_venues s)
             else wc_venues s)\<rparr>)
       items"
  by (simp add: backfill_venues_search_vector_def)

lemma step_backfill_venues_location:
  "each_from errs s (Sql (backfill_venues_location force_geodetic) # items) =
     each_from
       (errs @ (if ''postgis'' \<in> extensions s \<and> (''wc_venues'', ''location'') \<in> columns s
                then (case fill_rows (fill_location force_geodetic) (wc_venues s) of
                        Inl err \<Rightarrow> [err]
                      | Inr rows \<Rightarrow> [])
                else [Undefined_object]))
       (s\<lparr>wc_venues :=
            (if ''postgis'' \<in> extensions s \<and> (''wc_venues'', ''location'') \<in> columns s
             then (case fill_rows (fill_location force_geodetic) (wc_venues s) of
                     Inl err \<Rightarrow> wc_venues s
                   | Inr rows \<Rightarrow> rows)
             else wc_venues s)\<rparr>)
       items"
  by (simp add: backfill_venues_location_def split: sum.split)

lemma step_create_index:
  "each_from errs s (Sql (create_index_if_not_exists idx d needs) # items) =
     each_from (errs @ (if needs s then [] else [Undefined_object]))
       (s\<lparr>indexes := (if needs s then [idx \<mapsto> d] ++ indexes s else indexes s)\<rparr>)
       items"
  by (simp add: create_index_update)

lemma step_create_or_replace_function:
  "each_from errs s (Sql (create_or_replace_function fn body) # items) =
     each_from errs (s\<lparr>plpgsql_functions := (plpgsql_functions s)(fn \<mapsto> body)\<rparr>) items"
  by (simp add: create_or_replace_function_def)

lemma step_drop_function:
  "each_from errs s (Sql (drop_function_if_exists fn) # items) =
     each_from
       (errs @ (if fn \<in> trg_function ` ran (triggers s)
                then [Dependent_objects_still_exist] else []))
       (s\<lparr>plpgsql_functions :=
            (if fn \<in> trg_function ` ran (triggers s) then plpgsql_functions s
             else (plpgsql_functions s)(fn := None)),
          function_comments :=
            (if fn \<in> trg_function ` ran (triggers s) then function_comments s
             else (function_comments s)(fn := None))\<rparr>)
       items"
  by (simp add: drop_function_if_exists_def)

lemma step_drop_trigger:
  "each_from errs s (Sql (drop_trigger_if_exists trg tbl) # items) =
     each_from errs (s\<lparr>triggers := (triggers s)((tbl, trg) := None)\<rparr>) items"
  by (simp add: drop_trigger_if_exists_def)

lemma step_create_trigger:
  "each_from errs s (Sql (create_trigger trg tbl d) # items) =
     each_from
       (errs @ (if triggers s (tbl, trg) = None
                then (if plpgsql_functions s (trg_function d) = None
                      then [Undefined_object] else [])
                else [Duplicate_object]))
       (s\<lparr>triggers :=
            (if triggers s (tbl, trg) = None \<and> plpgsql_functions s (trg_function d) \<noteq> None
             then (triggers s)((tbl, trg) \<mapsto> d) else triggers s)\<rparr>)
       items"
  by (auto simp: create_trigger_def)

lemmas each_steps =
  step_not_sql step_unchanged step_do_verify_postgis step_select_from
  step_select_percentage step_create_extension step_add_events_search_vector
  step_add_venues_search_vector step_add_venues_location step_comment_on_column
  step_comment_on_index step_comment_on_function step_backfill_events_search_vector
  step_backfill_venues_search_vector step_backfill_venues_location step_create_index
  step_create_or_replace_function step_drop_function step_drop_trigger
  step_create_trigger

text \<open>
  A backfill touches only rows that satisfy its \<open>WHERE\<close> condition, and a row it
  has filled no longer satisfies it: the second pass finds nothing to do. The
  location backfill, when it fails, leaves the rows for the next run to fail on again.
\<close>

lemma map_fill_once:
  assumes "\<And>r. P r \<Longrightarrow> \<not> P (F r)"
  shows "map (\<lambda>r. if P r then F r else r) (map (\<lambda>r. if P r then F r else r) rows) =
           map (\<lambda>r. if P r then F r else r) rows"
  using assms by (induction rows) auto

lemma fill_location_settled:
  "fill_location force_geodetic v = Inr v' \<Longrightarrow> fill_location force_geodetic v' = Inr v'"
  by (auto simp: fill_location_def split: if_splits sum.splits)

lemma fill_rows_settled:
  "fill_rows (fill_location force_geodetic) rows = Inr rows' \<Longrightarrow>
   fill_rows (fill_location force_geodetic) rows' = Inr rows'"
proof (induction rows arbitrary: rows')
  case Nil
  then show ?case by simp
next
  case (Cons r rows)
  then show ?case
    by (auto simp: fill_location_settled split: sum.splits)
qed

lemma fill_rows_length:
  "fill_rows fill rows = Inr rows' \<Longrightarrow> length rows' = length rows"
  by (induction rows arbitrary: rows') (auto split: sum.splits)

lemma fill_rows_kept_length:
  "length (case fill_rows fill rows of Inl err \<Rightarrow> rows | Inr rows' \<Rightarrow> rows') = length rows"
  by (auto simp: fill_rows_length split: sum.splits)

lemma fill_rows_kept_again:
  "fill_rows (fill_location force_geodetic)
     (case fill_rows (fill_location force_geodetic) rows of
        Inl err \<Rightarrow> rows
      | Inr rows' \<Rightarrow> rows') =
   fill_rows (fill_location force_geodetic) rows"
  by (auto simp: fill_rows_settled split: sum.splits)

lemma length_if_map: "length (if c then xs else map g xs) = length xs"
  by simp

lemmas needs_defs = always_def has_extension_def has_column_def has_both_def
  count_venues_def count_events_and_venues_def

text \<open>
  The two ways of running a script agree up to the first error: the batch succeeds
  exactly when the statement-by-statement run reports nothing, and then leaves the
  same state; otherwise it fails with the first error reported.
\<close>

lemma each_from_errors:
  "each_from errs s items =
     (errs @ fst (each_from [] s items), snd (each_from [] s items))"
proof (induction items arbitrary: errs s)
  case Nil
  then show ?case by simp
next
  case (Cons item items)
  show ?case
  proof (cases "run_item item s")
    case (Inl err)
    with Cons.IH [of "errs @ [err]" s] Cons.IH [of "[err]" s] show ?thesis
      by simp
  next
    case (Inr s')
    with Cons.IH [of errs s'] show ?thesis
      by simp
  qed
qed

lemma run_all_by_each:
  "run_all items s =
     (case fst (run_each items s) of
        [] \<Rightarrow> Inr (snd (run_each items s))
      | err # errs \<Rightarrow> Inl err)"
  unfolding run_each_def
proof (induction items arbitrary: s)
  case Nil
  then show ?case by simp
next
  case (Cons item items)
  show ?case
  proof (cases "run_item item s")
    case (Inl err)
    with each_from_errors [of "[err]" s items] show ?thesis
      by simp
  next
    case (Inr s')
    with Cons.IH [of s'] show ?thesis
      by (simp cong: list.case_cong)
  qed
qed

lemma run_batch_again:
  assumes "run_each items (snd (run_each items s)) = run_each items s"
  shows "run_batch items (snd (run_batch items s)) = run_batch items s"
proof (cases "list_all is_sql items")
  case False
  then show ?thesis by (simp add: run_batch_def)
next
  case True
  show ?thesis
  proof (cases "fst (run_each items s)")
    case Nil
    with True assms show ?thesis
      by (simp add: run_batch_def run_all_by_each)
  next
    case (Cons err errs)
    with True show ?thesis
      by (simp add: run_batch_def run_all_by_each)
  qed
qed

lemma postgis_each_again:
  "run_each (postgis_script force_geodetic)
     (snd (run_each (postgis_script force_geodetic) s)) =
   run_each (postgis_script force_geodetic) s"
  apply (cases "''postgis'' \<in> extensions s \<or> ''postgis'' \<in> available_extensions s";
      cases "(''wc_venues'', ''location'') \<in> columns s")
  apply (simp_all add: run_each_def postgis_script_def each_steps needs_defs
      map_add_upd_same map_add_upd_other fill_rows_kept_length fill_rows_kept_again
      del: each_from.simps(2) map_map split del: if_split cong: if_cong sum.case_cong)
  apply simp_all
  done

lemma text_each_again:
  "run_each (text_search_script english)
     (snd (run_each (text_search_script english) s)) =
   run_each (text_search_script english) s"
  apply (cases "''pg_trgm'' \<in> extensions s \<or> ''pg_trgm'' \<in> available_extensions s")
  apply (simp_all add: run_each_def text_search_script_def each_steps needs_defs
      map_add_upd_same map_add_upd_other length_if_map map_fill_once insert_absorb
      del: each_from.simps(2) map_map split del: if_split cong: if_cong sum.case_cong)
  done

lemma postgis_batch_refused:
  "run_batch (postgis_script force_geodetic) s = ([Syntax_error], s)"
  by (simp add: run_batch_def postgis_script_def)

lemma text_each_filled:
  "list_all (\<lambda>e. e_search_vector e \<noteq> None)
     (wc_events (snd (run_each (text_search_script english) s))) \<and>
   list_all (\<lambda>v. v_search_vector v \<noteq> None)
     (wc_venues (snd (run_each (text_search_script english) s)))"
  apply (simp add: run_each_def text_search_script_def each_steps needs_defs
      map_add_upd_same map_add_upd_other
      del: each_from.simps(2) map_map split del: if_split cong: if_cong sum.case_cong)
  apply (auto simp: list_all_iff)
  done

lemma text_each_triggers:
  "triggers (snd (run_each (text_search_script english) s))
     (''wc_events'', ''trigger_update_event_search_vector'') =
     Some \<lparr>trg_update_of = [''title'', ''description''],
           trg_function = ''update_event_search_vector''\<rparr> \<and>
   triggers (snd (run_each (text_search_script english) s))
     (''wc_venues'', ''trigger_update_venue_search_vector'') =
     Some \<lparr>trg_update_of = [''name''], trg_function = ''update_venue_search_vector''\<rparr> \<and>
   plpgsql_functions (snd (run_each (text_search_script english) s))
     ''update_event_search_vector'' = Some Event_search_vector_body \<and>
   plpgsql_functions (snd (run_each (text_search_script english) s))
     ''update_venue_search_vector'' = Some Venue_search_vector_body"
  by (simp add: run_each_def text_search_script_def each_steps needs_defs
      map_add_upd_same map_add_upd_other
      del: each_from.simps(2) map_map split del: if_split cong: if_cong sum.case_cong)

lemma postgis_each_triggers:
  "triggers (snd (run_each (postgis_script force_geodetic) s))
     (''wc_venues'', ''trigger_update_venue_location'') =
     Some \<lparr>trg_update_of = [''lat'', ''lon''], trg_function = ''update_venue_location''\<rparr> \<and>
   plpgsql_functions (snd (run_each (postgis_script force_geodetic) s))
     ''update_venue_location'' = Some Venue_location_body"
  by (simp add: run_each_def postgis_script_def each_steps needs_defs
      map_add_upd_same map_add_upd_other
      del: each_from.simps(2) map_map split del: if_split cong: if_cong sum.case_cong)

lemma text_trigger_duplicate:
  "create_trigger ''trigger_update_event_search_vector'' ''wc_events'' d
     (snd (run_each (text_search_script english) s)) = Inl Duplicate_object"
  using text_each_triggers [of english s] by (simp add: create_trigger_def)

lemma postgis_trigger_duplicate:
  "create_trigger ''trigger_update_venue_location'' ''wc_venues'' d
     (snd (run_each (postgis_script force_geodetic) s)) = Inl Duplicate_object"
  using postgis_each_triggers [of force_geodetic s] by (simp add: create_trigger_def)

text \<open>
  C10. Each index migration is idempotent as a state transformer, whichever way the
  script is run. Run statement by statement on the state its own run has left, a
  script leaves that state unchanged and reports the errors of the first run again,
  none new: the guarded statements find their objects in place, and the backfills
  find no row to fill. A batch run is idempotent likewise; for the PostGIS script it
  is so because the batch never applies: the script ends with text that is not SQL,
  so the batch is refused and the state is left as it was. After the text search
  script every event and venue row has a search vector. The one statement without a
  guard of its own, \<open>CREATE TRIGGER\<close>, would fail on the state a run has left;
  the scripts put \<open>DROP TRIGGER IF EXISTS\<close> before it.
\<close>

theorem migrations_idempotent:
  "run_each (text_search_script english)
     (snd (run_each (text_search_script english) s)) =
     run_each (text_search_script english) s \<and>
   run_batch (text_search_script english)
     (snd (run_batch (text_search_script english) s)) =
     run_batch (text_search_script english) s \<and>
   run_each (postgis_script force_geodetic)
     (snd (run_each (postgis_script force_geodetic) s)) =
     run_each (postgis_script force_geodetic) s \<and>
   run_batch (postgis_script force_geodetic)
     (snd (run_batch (postgis_script force_geodetic) s)) =
     run_batch (postgis_script force_geodetic) s \<and>
   run_batch (postgis_script force_geodetic) s = ([Syntax_error], s) \<and>
   list_all (\<lambda>e. e_search_vector e \<noteq> None)
     (wc_events (snd (run_each (text_search_script english) s))) \<and>
   list_all (\<lambda>v. v_search_vector v \<noteq> None)
     (wc_venues (snd (run_each (text_search_script english) s))) \<and>
   create_trigger ''trigger_update_event_search_vector'' ''wc_events'' d1
     (snd (run_each (text_search_script english) s)) = Inl Duplicate_object \<and>
   create_trigger ''trigger_update_venue_location'' ''wc_venues'' d2
     (snd (run_each (postgis_script force_geodetic) s)) = Inl Duplicate_object"
proof -
  note text_again = text_each_again [of english s]
  note postgis_again = postgis_each_again [of force_geodetic s]
  from text_again have text_batch: "run_batch (text_search_script english)
      (snd (run_batch (text_search_script english) s)) =
      run_batch (text_search_script english) s"
    by (rule run_batch_again)
  from postgis_again have postgis_batch: "run_batch (postgis_script force_geodetic)
      (snd (run_batch (postgis_script force_geodetic) s)) =
      run_batch (postgis_script force_geodetic) s"
    by (rule run_batch_again)
  from text_again text_batch postgis_again postgis_batch postgis_batch_refused [of force_geodetic s]
    text_each_filled [of english s] text_trigger_duplicate [of d1 english s]
    postgis_trigger_duplicate [of d2 force_geodetic s]
  show ?thesis
    by (intro conjI) (elim conjE, assumption)+
qed

end
